theory Spec2Isabelle
  imports Complex_Main "HOL-Library.AList" "HOL-Library.Sublist" "HOL-Library.Multiset"
    "HOL-Library.Log_Nat"
begin

section \<open>Kisaan Saathi: the diagnostic engine of the edge functions\<close>

text \<open>
  The two edge functions \<^verbatim>\<open>chat-orchestrator\<close> and \<^verbatim>\<open>generate-advisory\<close> hold the
  diagnostic logic: \<^verbatim>\<open>detectSymptoms\<close>, \<^verbatim>\<open>extractKeywords\<close>,
  \<^verbatim>\<open>calculateDiseaseProbabilities\<close>, \<^verbatim>\<open>getNextQuestion\<close> and the two request handlers.
  They are embedded here function by function.

  Conventions of the embedding.
  \<^item> A JavaScript string of natural-language text is the list of its UTF-16 code units
    (\<open>jsstring\<close>), because \<^verbatim>\<open>length\<close>, \<^verbatim>\<open>split\<close>, \<^verbatim>\<open>trim\<close> and \<^verbatim>\<open>includes\<close> count and
    compare code units. Identifiers that are only compared for equality (uuids, symptom
    codes, the language tag) are \<open>string\<close>.
  \<^item> A JavaScript number is the real number that the IEEE 754 double stands for. A decimal
    literal of the source, a weight read from its \<^verbatim>\<open>numeric\<close> column and the result of every
    multiplication and addition are rounded to the nearest double, ties to even (\<open>double\<close>
    below); comparisons of doubles are comparisons of their values. The scores of the
    \<^verbatim>\<open>jsonb\<close> column \<^verbatim>\<open>current_probabilities\<close> are the doubles that the handler has written there.
    The values Infinity and NaN are not modelled.
  \<^item> A plain object used as a dictionary is an association list in insertion order
    (the keys are uuids, never array indices, so insertion order is the enumeration order).
  \<^item> The Supabase client never throws on a failed query; it returns a pair of
    \<^verbatim>\<open>data\<close> and \<^verbatim>\<open>error\<close>. A query is a function from the database snapshot to such a
    pair. A table that cannot be read is listed in \<open>failing\<close>.
  \<^item> Timestamps, CORS headers, console logging and generated row ids are left out, and so
    are the reads of \<^verbatim>\<open>fetchCharacterisationContext\<close> (its result is never used) and the
    insert into \<^verbatim>\<open>user_queries\<close>. The column \<^verbatim>\<open>priority\<close> is read as an integer and the
    jsonb column \<^verbatim>\<open>options\<close> as an opaque string.
\<close>

subsection \<open>Strings\<close>

type_synonym jsstring = "nat list"

definition js :: "string \<Rightarrow> jsstring" where
  "js s = map of_char s"

text \<open>\<^verbatim>\<open>\d\<close> without the unicode flag: the ten ASCII digits.\<close>

definition is_digit :: "nat \<Rightarrow> bool" where
  "is_digit c = (48 \<le> c \<and> c \<le> 57)"

text \<open>
  White space and line terminators of ECMAScript, as used by \<^verbatim>\<open>trim\<close> and by \<^verbatim>\<open>\s\<close>:
  TAB, LF, VT, FF, CR, SP, NBSP, U+1680, U+2000 to U+200A, U+2028, U+2029, U+202F,
  U+205F, U+3000, U+FEFF.
\<close>

definition is_space :: "nat \<Rightarrow> bool" where
  "is_space c = (c = 9 \<or> c = 10 \<or> c = 11 \<or> c = 12 \<or> c = 13 \<or> c = 32 \<or> c = 160
     \<or> c = 5760 \<or> (8192 \<le> c \<and> c \<le> 8202) \<or> c = 8232 \<or> c = 8233 \<or> c = 8239
     \<or> c = 8287 \<or> c = 12288 \<or> c = 65279)"

definition trim :: "jsstring \<Rightarrow> jsstring" where
  "trim s = rev (dropWhile is_space (rev (dropWhile is_space s)))"

text \<open>
  \<^verbatim>\<open>toLowerCase\<close>, written out for the Basic Latin and Latin-1 blocks (the scripts of the
  English texts); Devanagari, the script of the Hindi texts, has no case. A code unit outside
  these two blocks is left as it is, also where JavaScript would lower it (Greek, Cyrillic).
\<close>

definition lower_unit :: "nat \<Rightarrow> nat" where
  "lower_unit c = (if (65 \<le> c \<and> c \<le> 90) \<or> (192 \<le> c \<and> c \<le> 214) \<or> (216 \<le> c \<and> c \<le> 222)
                   then c + 32 else c)"

definition toLowerCase :: "jsstring \<Rightarrow> jsstring" where
  "toLowerCase s = map lower_unit s"

text \<open>\<^verbatim>\<open>s.includes(t)\<close>: \<open>t\<close> occurs in \<open>s\<close> as a contiguous run.\<close>

fun includes_js :: "'a list \<Rightarrow> 'a list \<Rightarrow> bool" where
  "includes_js [] t = (t = [])"
| "includes_js (c # cs) t = (prefix t (c # cs) \<or> includes_js cs t)"

text \<open>
  \<^verbatim>\<open>String.prototype.split\<close> with a regular expression that never matches the empty
  string. The matcher \<open>m\<close> is the regular expression anchored at the start of its
  argument; it returns the length of the match. The loop keeps the fragment read since
  the last separator (reversed) and scans on behind each match.
\<close>

fun split_loop :: "(jsstring \<Rightarrow> nat option) \<Rightarrow> jsstring \<Rightarrow> jsstring \<Rightarrow> jsstring list" where
  "split_loop m acc [] = [rev acc]"
| "split_loop m acc (c # cs) =
     (case m (c # cs) of
        None \<Rightarrow> split_loop m (c # acc) cs
      | Some n \<Rightarrow> rev acc # split_loop m [] (drop (n - 1) cs))"

definition split :: "(jsstring \<Rightarrow> nat option) \<Rightarrow> jsstring \<Rightarrow> jsstring list" where
  "split m s = split_loop m [] s"

text \<open>\<^verbatim>\<open>/\d+\./\<close>: a maximal run of at least one digit, then a full stop.\<close>

definition digits_dot :: "jsstring \<Rightarrow> nat option" where
  "digits_dot s =
     (let ds = takeWhile is_digit s in
      if ds \<noteq> [] \<and> take 1 (dropWhile is_digit s) = [46] then Some (length ds + 1) else None)"

text \<open>\<^verbatim>\<open>/[\s,]+/\<close>: a maximal run of white space and commas.\<close>

definition spaces_commas :: "jsstring \<Rightarrow> nat option" where
  "spaces_commas s =
     (let r = takeWhile (\<lambda>c. is_space c \<or> c = 44) s in
      if r \<noteq> [] then Some (length r) else None)"

subsection \<open>Tables of the knowledge base\<close>

type_synonym uuid = string

record symptom =
  s_id :: uuid
  symptom_code :: string
  description_en :: jsstring
  description_hi :: jsstring

record disease =
  d_id :: uuid
  name_en :: jsstring
  name_hi :: jsstring
  d_description_en :: jsstring
  d_description_hi :: jsstring
  treatment_en :: jsstring
  treatment_hi :: jsstring
  prevention_en :: "jsstring option"
  prevention_hi :: "jsstring option"
  d_crop_id :: "uuid option"

record mapping =
  symptom_id :: uuid
  disease_id :: uuid
  probability_weight :: real
  is_primary_indicator :: bool

record question =
  question_code :: string
  question_en :: jsstring
  question_hi :: jsstring
  trigger_symptoms :: "string list option"
  answer_type :: string
  options :: string
  priority :: int

datatype role = User | Assistant

record chat_message =
  role :: role
  content :: jsstring

datatype status = Active | Completed | Escalated

type_synonym 'v obj = "(string \<times> 'v) list"

record conversation =
  c_id :: uuid
  session_id :: string
  user_id :: string
  c_language :: string
  crop_id :: "uuid option"
  conversation_history :: "chat_message list option"
  detected_symptoms :: "string list option"
  current_probabilities :: "real obj option"
  status :: status

record advisory =
  a_conversation_id :: uuid
  a_user_id :: string
  a_disease_id :: uuid
  confidence_score :: real
  a_language :: string
  action_steps :: "(nat \<times> jsstring) list"
  escalated :: bool

datatype table = Symptoms | Diseases | Symptom_disease_mapping | Diagnostic_questions
  | Conversations | Advisories

record database =
  symptoms :: "symptom list"
  diseases :: "disease list"
  symptom_disease_mapping :: "mapping list"
  diagnostic_questions :: "question list"
  conversations :: "conversation list"
  advisories :: "advisory list"
  failing :: "table list"

subsection \<open>The Supabase client\<close>

record 'a response =
  data :: "'a option"
  error :: "string option"

text \<open>A select over \<open>rows\<close> of table \<open>t\<close>: the rows, or an error when the table cannot be read.\<close>

definition select :: "database \<Rightarrow> table \<Rightarrow> 'a list \<Rightarrow> 'a list response" where
  "select db t rows =
     (if t \<in> set (failing db) then \<lparr>data = None, error = Some ''unavailable''\<rparr>
      else \<lparr>data = Some rows, error = None\<rparr>)"

subsection \<open>Numbers\<close>

text \<open>
  A JavaScript number is an IEEE 754 binary64 value: 53 significant bits, the smallest unit
  in the last place \<open>2 powi -1074\<close>. The result of an addition or a multiplication, and a
  number read from JSON, is the real result rounded to the nearest such value, a tie going to
  the even significand.

  \<open>ulp_exponent x\<close> is the exponent of the unit in the last place at \<open>x\<close>: with \<open>n\<close> the
  number of binary digits of the integer part of \<open>\<bar>x\<bar> * 2 ^ 1074\<close>, the last of 53 significant
  bits has the weight \<open>2 powi (n - 53 - 1074)\<close>, and \<open>2 powi -1074\<close> for the subnormal numbers.
\<close>

definition round_half_even :: "real \<Rightarrow> int" where
  "round_half_even y =
     (let f = \<lfloor>y\<rfloor>; r = y - of_int f
      in if r < 1 / 2 then f else if r > 1 / 2 then f + 1 else if even f then f else f + 1)"

definition ulp_exponent :: "real \<Rightarrow> int" where
  "ulp_exponent x = int (floorlog 2 (nat \<lfloor>\<bar>x\<bar> * 2 ^ 1074\<rfloor>) - 53) - 1074"

definition double :: "real \<Rightarrow> real" where
  "double x = of_int (round_half_even (x / 2 powi ulp_exponent x)) * 2 powi ulp_exponent x"

subsection \<open>\<^verbatim>\<open>calculateDiseaseProbabilities\<close>\<close>

text \<open>
  One iteration of the loop over the mapping rows:
  \<^verbatim>\<open>if (!p[d]) p[d] = 0;  p[d] += weight * 0.5\<close>.
  The guard is true for a missing key and for the value 0. The weight is the number of the
  row as JavaScript reads it; the product and the sum are rounded.
\<close>

definition add_mapping :: "real obj \<Rightarrow> mapping \<Rightarrow> real obj" where
  "add_mapping p m =
     (let diseaseId = disease_id m;
          weight = double (probability_weight m);
          p1 = (if map_of p diseaseId = None \<or> map_of p diseaseId = Some 0
                then AList.update diseaseId 0 p else p)
      in AList.update diseaseId
           (double ((case map_of p1 diseaseId of Some v \<Rightarrow> v | None \<Rightarrow> 0)
                    + double (weight * 0.5))) p1)"

definition calculateDiseaseProbabilities :: "database \<Rightarrow> string list \<Rightarrow> real obj" where
  "calculateDiseaseProbabilities db detectedSymptoms =
     (if length detectedSymptoms = 0 then []
      else
        let r1 = select db Symptoms
                   (filter (\<lambda>s. symptom_code s \<in> set detectedSymptoms) (symptoms db))
        in if error r1 \<noteq> None then []
        else case data r1 of
          None \<Rightarrow> []
        | Some syms \<Rightarrow>
            if length syms = 0 then []
            else
              let symptomIds = map s_id syms;
                  r2 = select db Symptom_disease_mapping
                         (filter (\<lambda>m. symptom_id m \<in> set symptomIds) (symptom_disease_mapping db))
              in if error r2 \<noteq> None then []
              else
                let mappings = (case data r2 of None \<Rightarrow> [] | Some ms \<Rightarrow> ms);
                    diseaseProbabilities = foldl add_mapping [] mappings
                in map (\<lambda>(diseaseId, v). (diseaseId, min v 1.0)) diseaseProbabilities)"

subsection \<open>\<^verbatim>\<open>extractKeywords\<close> and \<^verbatim>\<open>detectSymptoms\<close>\<close>

definition extractKeywords :: "jsstring \<Rightarrow> jsstring list" where
  "extractKeywords description =
     (let words = split spaces_commas description in filter (\<lambda>w. length w > 3) words)"

text \<open>\<^verbatim>\<open>[...new Set(xs)]\<close>: the elements of \<open>xs\<close> in the order of their first occurrence.\<close>

definition new_Set :: "'a list \<Rightarrow> 'a list" where
  "new_Set xs = rev (remdups (rev xs))"

text \<open>
  The query built by \<^verbatim>\<open>detectSymptoms\<close>: all symptoms, narrowed by \<^verbatim>\<open>.in('id', symptomIds)\<close>
  only when a crop is given, the crop has diseases and these diseases have mapping rows.
  The result is \<open>None\<close> for the unfiltered query and the list of ids otherwise.
\<close>

definition symptom_filter :: "database \<Rightarrow> uuid option \<Rightarrow> uuid list option" where
  "symptom_filter db cropId =
     (case cropId of
        None \<Rightarrow> None
      | Some c \<Rightarrow>
          if c = [] then None
          else
            (case data (select db Diseases (filter (\<lambda>d. d_crop_id d = Some c) (diseases db))) of
               None \<Rightarrow> None
             | Some cropDiseases \<Rightarrow>
                 if length cropDiseases > 0 then
                   let diseaseIds = map d_id cropDiseases in
                   (case data (select db Symptom_disease_mapping
                           (filter (\<lambda>m. disease_id m \<in> set diseaseIds) (symptom_disease_mapping db))) of
                      None \<Rightarrow> None
                    | Some relevantSymptoms \<Rightarrow>
                        if length relevantSymptoms > 0
                        then Some (new_Set (map symptom_id relevantSymptoms))
                        else None)
                 else None))"

definition detectSymptoms :: "database \<Rightarrow> jsstring \<Rightarrow> string \<Rightarrow> uuid option \<Rightarrow> symptom list" where
  "detectSymptoms db message language cropId =
     (let messageLower = toLowerCase message;
          query = (case symptom_filter db cropId of
                     None \<Rightarrow> symptoms db
                   | Some symptomIds \<Rightarrow> filter (\<lambda>s. s_id s \<in> set symptomIds) (symptoms db));
          syms = (case data (select db Symptoms query) of None \<Rightarrow> [] | Some rows \<Rightarrow> rows)
      in filter (\<lambda>symptom.
           let description = (if language = ''hi'' then description_hi symptom
                              else description_en symptom);
               keywords = extractKeywords description
           in list_ex (\<lambda>keyword. includes_js messageLower (toLowerCase keyword)) keywords) syms)"

subsection \<open>\<^verbatim>\<open>getNextQuestion\<close>\<close>

record next_question =
  nq_question :: jsstring
  nq_code :: string
  nq_answerType :: string
  nq_options :: string

text \<open>The loop over the questions, leaving at the first one that is triggered and not yet asked.\<close>

fun scan_questions ::
  "string list \<Rightarrow> jsstring list \<Rightarrow> string \<Rightarrow> question list \<Rightarrow> next_question option" where
  "scan_questions detectedSymptoms askedQuestions language [] = None"
| "scan_questions detectedSymptoms askedQuestions language (q # qs) =
     (let triggerSymptoms = (case trigger_symptoms q of None \<Rightarrow> [] | Some ts \<Rightarrow> ts);
          hasMatchingSymptom = list_ex (\<lambda>ts. ts \<in> set detectedSymptoms) triggerSymptoms;
          questionText = (if language = ''hi'' then question_hi q else question_en q);
          alreadyAsked = list_ex (\<lambda>asked. includes_js asked questionText) askedQuestions
      in if hasMatchingSymptom \<and> \<not> alreadyAsked
         then Some \<lparr>nq_question = questionText, nq_code = question_code q,
                     nq_answerType = answer_type q, nq_options = options q\<rparr>
         else scan_questions detectedSymptoms askedQuestions language qs)"

text \<open>
  \<^verbatim>\<open>.order('priority', { ascending: false })\<close>: the rows by falling priority; rows of equal
  priority are left in table order.
\<close>

definition order_priority_desc :: "question list \<Rightarrow> question list" where
  "order_priority_desc qs = sort_key (\<lambda>q. - priority q) qs"

definition getNextQuestion ::
  "database \<Rightarrow> string list \<Rightarrow> chat_message list \<Rightarrow> string \<Rightarrow> next_question option" where
  "getNextQuestion db detectedSymptoms conversationHistory language =
     (let askedQuestions = map content (filter (\<lambda>m. role m = Assistant) conversationHistory);
          questions = data (select db Diagnostic_questions
                              (order_priority_desc (diagnostic_questions db)))
      in scan_questions detectedSymptoms askedQuestions language
           (case questions of None \<Rightarrow> [] | Some qs \<Rightarrow> qs))"

subsection \<open>The handler of \<^verbatim>\<open>generate-advisory\<close>\<close>

datatype 'a http = Http_ok 'a | Http_error nat string

text \<open>\<^verbatim>\<open>.single()\<close>: exactly one row, otherwise no data and an error.\<close>

definition single :: "'a list response \<Rightarrow> 'a response" where
  "single r =
     (case data r of
        None \<Rightarrow> \<lparr>data = None, error = error r\<rparr>
      | Some rows \<Rightarrow>
          (case rows of
             [x] \<Rightarrow> \<lparr>data = Some x, error = None\<rparr>
           | _ \<Rightarrow> \<lparr>data = None, error = Some ''PGRST116''\<rparr>))"

text \<open>\<^verbatim>\<open>.maybeSingle()\<close>: as \<^verbatim>\<open>.single()\<close>, but no row is no error.\<close>

definition maybeSingle :: "'a list response \<Rightarrow> 'a response" where
  "maybeSingle r =
     (case data r of
        None \<Rightarrow> \<lparr>data = None, error = error r\<rparr>
      | Some rows \<Rightarrow>
          (case rows of
             [] \<Rightarrow> \<lparr>data = None, error = None\<rparr>
           | [x] \<Rightarrow> \<lparr>data = Some x, error = None\<rparr>
           | _ \<Rightarrow> \<lparr>data = None, error = Some ''PGRST116''\<rparr>))"

text \<open>
  \<^verbatim>\<open>from('conversations').select('*').eq('id', conversationId).single()\<close> and
  \<^verbatim>\<open>from('diseases').select('*').eq('id', diseaseId).single()\<close>.
\<close>

definition conversation_by_id :: "database \<Rightarrow> uuid \<Rightarrow> conversation response" where
  "conversation_by_id db conversationId =
     single (select db Conversations (filter (\<lambda>c. c_id c = conversationId) (conversations db)))"

definition disease_by_id :: "database \<Rightarrow> uuid \<Rightarrow> disease response" where
  "disease_by_id db diseaseId =
     single (select db Diseases (filter (\<lambda>d. d_id d = diseaseId) (diseases db)))"

text \<open>The body of the 400 response: no diagnosis yet.\<close>

definition no_diagnosis :: string where
  "no_diagnosis = ''No diagnosis available yet. Please provide more information about symptoms.''"

text \<open>
  \<^verbatim>\<open>Object.entries(probabilities).sort((a, b) => b[1] - a[1])\<close>: the entries by falling
  score; the sort is stable.
\<close>

definition sort_desc :: "real obj \<Rightarrow> real obj" where
  "sort_desc p = sort_key (\<lambda>e. - snd e) p"

text \<open>
  \<^verbatim>\<open>treatment.split(/\d+\./).filter(s => s.trim().length > 0)\<close> and the numbering
  \<^verbatim>\<open>map((step, index) => ({ step: index + 1, action: step.trim() }))\<close>.
\<close>

definition treatmentSteps :: "jsstring \<Rightarrow> jsstring list" where
  "treatmentSteps treatment = filter (\<lambda>s. length (trim s) > 0) (split digits_dot treatment)"

definition actionSteps :: "jsstring \<Rightarrow> (nat \<times> jsstring) list" where
  "actionSteps treatment =
     map (\<lambda>(index, step). (index + 1, trim step))
       (zip [0 ..< length (treatmentSteps treatment)] (treatmentSteps treatment))"

definition confidenceLevelText :: "string \<Rightarrow> real \<Rightarrow> jsstring" where
  "confidenceLevelText language confidenceScore =
     (if confidenceScore \<ge> double 0.8 then
        (if language = ''hi'' then [2313, 2330, 2381, 2330] else js ''High'')
      else if confidenceScore \<ge> double 0.6 then
        (if language = ''hi'' then [2350, 2343, 2381, 2351, 2350] else js ''Moderate'')
      else
        (if language = ''hi'' then [2325, 2350] else js ''Low''))"

record advisory_view =
  v_diseaseName :: jsstring
  v_description :: jsstring
  v_treatment :: jsstring
  v_prevention :: "jsstring option"
  v_confidenceScore :: real
  v_confidenceLevel :: jsstring
  v_actionSteps :: "(nat \<times> jsstring) list"
  v_escalated :: bool

definition insert_advisory :: "database \<Rightarrow> advisory \<Rightarrow> database" where
  "insert_advisory db a =
     (if Advisories \<in> set (failing db) then db else db\<lparr>advisories := advisories db @ [a]\<rparr>)"

definition update_status :: "database \<Rightarrow> uuid \<Rightarrow> status \<Rightarrow> database" where
  "update_status db conversationId st =
     (if Conversations \<in> set (failing db) then db
      else db\<lparr>conversations :=
             map (\<lambda>c. if c_id c = conversationId then c\<lparr>status := st\<rparr> else c) (conversations db)\<rparr>)"

text \<open>
  The handler after the CORS preflight: \<open>user\<close> is the result of \<^verbatim>\<open>auth.getUser\<close>. The
  rendered \<^verbatim>\<open>recommendationText\<close> is prose assembled from the fields below and is left
  out. The result is the HTTP response and the database after the request.
\<close>

definition generate_advisory ::
  "database \<Rightarrow> string option \<Rightarrow> uuid \<Rightarrow> string \<Rightarrow> advisory_view http \<times> database" where
  "generate_advisory db user conversationId language =
     (case user of
        None \<Rightarrow> (Http_error 401 ''Unauthorized'', db)
      | Some uid \<Rightarrow>
     (case data (conversation_by_id db conversationId) of
        None \<Rightarrow> (Http_error 500 ''Conversation not found'', db)
      | Some conversation \<Rightarrow>
     (let probabilities = (case current_probabilities conversation of None \<Rightarrow> [] | Some p \<Rightarrow> p)
      in if length probabilities = 0 then
           (Http_error 400 no_diagnosis, db)
         else
     (case sort_desc probabilities of
        [] \<Rightarrow> (Http_error 500 ''TypeError'', db)
      | (topDiseaseId, confidence) # _ \<Rightarrow>
     (case data (disease_by_id db topDiseaseId) of
        None \<Rightarrow> (Http_error 500 ''Disease information not found'', db)
      | Some disease \<Rightarrow>
     (let confidenceScore = confidence;
          shouldEscalate = (confidenceScore < double 0.6);
          diseaseName = (if language = ''hi'' then name_hi disease else name_en disease);
          description = (if language = ''hi'' then d_description_hi disease
                         else d_description_en disease);
          treatment = (if language = ''hi'' then treatment_hi disease else treatment_en disease);
          prevention = (if language = ''hi'' then prevention_hi disease else prevention_en disease);
          steps = actionSteps treatment;
          level = confidenceLevelText language confidenceScore;
          db1 = insert_advisory db
                  \<lparr>a_conversation_id = conversationId, a_user_id = uid,
                   a_disease_id = topDiseaseId, confidence_score = confidenceScore,
                   a_language = language, action_steps = steps, escalated = shouldEscalate\<rparr>;
          db2 = update_status db1 conversationId (if shouldEscalate then Escalated else Completed)
      in (Http_ok \<lparr>v_diseaseName = diseaseName, v_description = description,
                   v_treatment = treatment, v_prevention = prevention,
                   v_confidenceScore = confidenceScore, v_confidenceLevel = level,
                   v_actionSteps = steps, v_escalated = shouldEscalate\<rparr>, db2)))))))"

subsection \<open>The handler of \<^verbatim>\<open>chat-orchestrator\<close>\<close>

record conversation_request =
  req_sessionId :: string
  req_message :: jsstring
  req_language :: string
  req_cropId :: "uuid option"

record turn_response =
  r_response :: jsstring
  r_detectedSymptoms :: "string list"
  r_probabilities :: "real obj"
  r_nextQuestion :: "next_question option"
  r_conversationId :: uuid

text \<open>
  The loop that folds the matches of this turn into the evidence:
  \<^verbatim>\<open>if (!detectedSymptoms.includes(match.symptom_code)) detectedSymptoms.push(match.symptom_code)\<close>.
\<close>

definition push_symptom :: "string list \<Rightarrow> symptom \<Rightarrow> string list" where
  "push_symptom detectedSymptoms match =
     (if symptom_code match \<in> set detectedSymptoms then detectedSymptoms
      else detectedSymptoms @ [symptom_code match])"

definition merge_symptoms :: "string list \<Rightarrow> symptom list \<Rightarrow> string list" where
  "merge_symptoms detectedSymptoms symptomMatches = foldl push_symptom detectedSymptoms symptomMatches"

fun join :: "jsstring \<Rightarrow> jsstring list \<Rightarrow> jsstring" where
  "join sep [] = []"
| "join sep [x] = x"
| "join sep (x # y # ys) = x @ sep @ join sep (y # ys)"

text \<open>
  The question is asked only with evidence and a best score below 0.75
  (\<^verbatim>\<open>Math.max(...Object.values(probabilities))\<close>).
\<close>

definition select_question ::
  "database \<Rightarrow> string list \<Rightarrow> real obj \<Rightarrow> chat_message list \<Rightarrow> string \<Rightarrow> next_question option" where
  "select_question db detectedSymptoms probabilities conversationHistory language =
     (if length detectedSymptoms > 0 then
        (case map snd probabilities of
           [] \<Rightarrow> None
         | v # vs \<Rightarrow>
             let maxProb = fold max vs v in
             if maxProb < double 0.75
             then getNextQuestion db detectedSymptoms conversationHistory language
             else None)
      else None)"

definition greeting :: "string \<Rightarrow> jsstring" where
  "greeting language =
     (if language = ''hi''
      then [2350, 2376, 2306, 32, 2360, 2350, 2333, 32, 2327, 2351, 2366, 2404, 32, 2310, 2311,
            2319, 32, 2311, 2360, 2375, 32, 2332, 2354, 2381, 2342, 2368, 32, 2360, 2375, 32,
            2360, 2350, 2333, 2340, 2375, 32, 2361, 2376, 2306, 2404]
      else js ''I understand. Let'' @ [39] @ js ''s quickly figure this out.'')"

definition noticed :: "string \<Rightarrow> jsstring" where
  "noticed language =
     (if language = ''hi''
      then [2350, 2376, 2306, 2344, 2375, 32, 2342, 2375, 2326, 2366, 58, 32]
      else js ''I noticed: '')"

definition identified :: "string \<Rightarrow> jsstring" where
  "identified language =
     (if language = ''hi''
      then [10, 10, 2350, 2369, 2333, 2375, 32, 2354, 2327, 2340, 2366, 32, 2361, 2376, 32, 2325,
            2367, 32, 2350, 2369, 2333, 2375, 32, 2346, 2340, 2366, 32, 2330, 2354, 32, 2327,
            2351, 2366, 32, 2361, 2376, 2404, 32, 2310, 2311, 2319, 32, 2350, 2376, 2306, 32,
            2310, 2346, 2325, 2379, 32, 2360, 2367, 2347, 2366, 2352, 2367, 2358, 32, 2340, 2376,
            2351, 2366, 2352, 32, 2325, 2352, 2370, 2306, 2404]
      else [10, 10] @ js ''I think I'' @ [39]
             @ js ''ve identified it. Let me prepare a recommendation for you.'')"

definition tell_me :: "string \<Rightarrow> jsstring" where
  "tell_me language =
     (if language = ''hi''
      then [10, 10, 2325, 2371, 2346, 2351, 2366, 32, 2350, 2369, 2333, 2375, 32, 2348, 2340, 2366,
            2319, 2306, 32, 2325, 2367, 32, 2310, 2346, 2325, 2379, 32, 2325, 2381, 2351, 2366,
            32, 2360, 2350, 2360, 2381, 2351, 2366, 32, 2342, 2367, 2326, 32, 2352, 2361, 2368,
            32, 2361, 2376, 63]
      else [10, 10] @ js ''Please tell me what problem you are seeing?'')"

definition responseText ::
  "database \<Rightarrow> string \<Rightarrow> nat \<Rightarrow> symptom list \<Rightarrow> next_question option \<Rightarrow> real obj \<Rightarrow> jsstring" where
  "responseText db language history_length symptomMatches nextQuestion probabilities =
     (let t0 = (if history_length = 1 then greeting language else []);
          t1 = (if length symptomMatches > 0 then
                  let symptomNames = join (js '', '')
                        (map (\<lambda>s. if language = ''hi'' then description_hi s else description_en s)
                           symptomMatches);
                      acknowledgment = noticed language @ symptomNames
                  in if t0 \<noteq> [] then t0 @ [10, 10] @ acknowledgment else acknowledgment
                else t0)
      in case nextQuestion of
           Some q \<Rightarrow> t1 @ [10, 10] @ nq_question q
         | None \<Rightarrow>
             (case sort_desc probabilities of
                (diseaseId, confidence) # _ \<Rightarrow>
                  (case data (disease_by_id db diseaseId) of
                     Some diseaseData \<Rightarrow> if confidence > double 0.6 then t1 @ identified language else t1
                   | None \<Rightarrow> t1)
              | [] \<Rightarrow> if history_length = 1 then t1 @ tell_me language else t1))"

definition update_conversation ::
  "database \<Rightarrow> string \<Rightarrow> chat_message list \<Rightarrow> string list \<Rightarrow> real obj \<Rightarrow> database" where
  "update_conversation db sid history detected probabilities =
     (if Conversations \<in> set (failing db) then db
      else db\<lparr>conversations :=
             map (\<lambda>c. if session_id c = sid
                       then c\<lparr>conversation_history := Some history,
                              detected_symptoms := Some detected,
                              current_probabilities := Some probabilities\<rparr>
                       else c) (conversations db)\<rparr>)"

text \<open>
  The conversation of the session: the stored one, or a new one inserted with the id
  \<open>fresh\<close> the database generates. The insert fails when the table cannot be written or the
  session id is taken; the handler throws on that error (\<^verbatim>\<open>if (createError) throw createError\<close>)
  and the request ends with status 500.
\<close>

definition load_or_create ::
  "database \<Rightarrow> string \<Rightarrow> uuid \<Rightarrow> conversation_request \<Rightarrow> string + (conversation \<times> database)" where
  "load_or_create db uid fresh req =
     (case data (maybeSingle (select db Conversations
                   (filter (\<lambda>c. session_id c = req_sessionId req) (conversations db)))) of
        Some c \<Rightarrow> Inr (c, db)
      | None \<Rightarrow>
          if Conversations \<in> set (failing db)
             \<or> list_ex (\<lambda>c. session_id c = req_sessionId req) (conversations db)
          then Inl ''createError''
          else
            let newConv = \<lparr>c_id = fresh, session_id = req_sessionId req, user_id = uid,
                           c_language = (if req_language req = [] then ''en'' else req_language req),
                           crop_id = req_cropId req, conversation_history = Some [],
                           detected_symptoms = Some [], current_probabilities = Some [],
                           status = Active\<rparr>
            in Inr (newConv, db\<lparr>conversations := conversations db @ [newConv]\<rparr>))"

text \<open>
  The handler after the CORS preflight: \<open>user\<close> is the user the token of the request
  belongs to, \<open>None\<close> for a missing or invalid token (status 401 in both cases). The result
  is the HTTP response and the database after the request.
\<close>

definition chat_orchestrator ::
  "database \<Rightarrow> string option \<Rightarrow> uuid \<Rightarrow> conversation_request \<Rightarrow> turn_response http \<times> database" where
  "chat_orchestrator db user fresh req =
     (case user of
        None \<Rightarrow> (Http_error 401 ''Unauthorized - Invalid token'', db)
      | Some uid \<Rightarrow>
     (case load_or_create db uid fresh req of
        Inl e \<Rightarrow> (Http_error 500 e, db)
      | Inr (conversation, db0) \<Rightarrow>
     (let conversationHistory0 =
            (case conversation_history conversation of None \<Rightarrow> [] | Some h \<Rightarrow> h);
          detectedSymptoms0 =
            (case detected_symptoms conversation of None \<Rightarrow> [] | Some ds \<Rightarrow> ds);
          conversationHistory1 = conversationHistory0 @ [\<lparr>role = User, content = req_message req\<rparr>];
          symptomMatches = detectSymptoms db0 (req_message req) (req_language req) (req_cropId req);
          detectedSymptoms = merge_symptoms detectedSymptoms0 symptomMatches;
          probabilities = calculateDiseaseProbabilities db0 detectedSymptoms;
          nextQuestion = select_question db0 detectedSymptoms probabilities conversationHistory1
                           (req_language req);
          text = responseText db0 (req_language req) (length conversationHistory1) symptomMatches
                   nextQuestion probabilities;
          conversationHistory2 = conversationHistory1 @ [\<lparr>role = Assistant, content = text\<rparr>];
          db1 = update_conversation db0 (req_sessionId req) conversationHistory2 detectedSymptoms
                  probabilities
      in (Http_ok \<lparr>r_response = text, r_detectedSymptoms = detectedSymptoms,
                   r_probabilities = probabilities, r_nextQuestion = nextQuestion,
                   r_conversationId = c_id conversation\<rparr>, db1))))"

section \<open>Auxiliary notions for the statements\<close>

text \<open>
  The mapping rows a successful run of \<^verbatim>\<open>calculateDiseaseProbabilities\<close> folds: the rows
  of the symptoms whose code is in the evidence.
\<close>

definition evidence_rows :: "database \<Rightarrow> string list \<Rightarrow> mapping list" where
  "evidence_rows db detectedSymptoms =
     filter (\<lambda>m. symptom_id m \<in> s_id ` {s \<in> set (symptoms db). symptom_code s \<in> set detectedSymptoms})
       (symptom_disease_mapping db)"

text \<open>
  The arithmetic of one iteration of the loop: the score \<open>v\<close> so far and the weight \<open>w\<close>
  of the row as stored give \<^verbatim>\<open>v + w * 0.5\<close> in doubles.
\<close>

definition add_half :: "real \<Rightarrow> real \<Rightarrow> real" where
  "add_half v w = double (v + double (double w * 0.5))"

section \<open>Scenario data\<close>

text \<open>
  A small knowledge base: two strong indicators of wheat rust (weights 0.9 and 0.8), a third
  one (0.7), and one weak indicator of leaf blight (0.3).
\<close>

definition wheat_rust :: disease where
  "wheat_rust =
     \<lparr>d_id = ''d-rust'', name_en = js ''Wheat Rust'', name_hi = [2327, 2375, 2361, 2370, 2305],
      d_description_en = js ''Fungal disease of wheat'', d_description_hi = [2352, 2379, 2327],
      treatment_en = js ''1. Apply fungicide 2. Remove infected leaves 3. Monitor weekly'',
      treatment_hi = [49, 46, 32, 2342, 2357, 2366, 32, 50, 46, 32, 2346, 2340, 2381, 2340, 2375],
      prevention_en = Some (js ''Use resistant varieties''), prevention_hi = None,
      d_crop_id = Some ''crop-wheat''\<rparr>"

definition leaf_blight :: disease where
  "leaf_blight =
     \<lparr>d_id = ''d-blight'', name_en = js ''Leaf Blight'', name_hi = [2333, 2369, 2354, 2360, 2366],
      d_description_en = js ''Blight of the leaves'', d_description_hi = [2352, 2379, 2327],
      treatment_en = js ''Remove debris. 12. Spray copper'',
      treatment_hi = [2342, 2357, 2366],
      prevention_en = None, prevention_hi = None,
      d_crop_id = Some ''crop-rice''\<rparr>"

definition orange_pustules :: symptom where
  "orange_pustules =
     \<lparr>s_id = ''s1'', symptom_code = ''orange_pustules'',
      description_en = js ''Orange pustules on leaves'',
      description_hi = [2344, 2366, 2352, 2306, 2327, 2368]\<rparr>"

definition rust_spots :: symptom where
  "rust_spots =
     \<lparr>s_id = ''s2'', symptom_code = ''rust_spots'',
      description_en = js ''Rust colored spots'', description_hi = [2343, 2347, 2381, 2347, 2375]\<rparr>"

definition yellow_stripes :: symptom where
  "yellow_stripes =
     \<lparr>s_id = ''s3'', symptom_code = ''yellow_stripes'',
      description_en = js ''Yellow stripes'', description_hi = [2346, 2368, 2354, 2368]\<rparr>"

definition wilting :: symptom where
  "wilting =
     \<lparr>s_id = ''s4'', symptom_code = ''wilting'',
      description_en = js ''Wilting, drooping plant'',
      description_hi = [2350, 2369, 2352, 2333, 2366, 2344, 2366]\<rparr>"

definition kb_symptoms :: "symptom list" where
  "kb_symptoms = [orange_pustules, rust_spots, yellow_stripes, wilting]"

definition rust_by_pustules :: mapping where
  "rust_by_pustules =
     \<lparr>symptom_id = ''s1'', disease_id = ''d-rust'', probability_weight = 0.9,
      is_primary_indicator = True\<rparr>"

definition rust_by_spots :: mapping where
  "rust_by_spots =
     \<lparr>symptom_id = ''s2'', disease_id = ''d-rust'', probability_weight = 0.8,
      is_primary_indicator = True\<rparr>"

definition rust_by_stripes :: mapping where
  "rust_by_stripes =
     \<lparr>symptom_id = ''s3'', disease_id = ''d-rust'', probability_weight = 0.7,
      is_primary_indicator = False\<rparr>"

definition blight_by_wilting :: mapping where
  "blight_by_wilting =
     \<lparr>symptom_id = ''s4'', disease_id = ''d-blight'', probability_weight = 0.3,
      is_primary_indicator = False\<rparr>"

definition kb_mappings :: "mapping list" where
  "kb_mappings = [rust_by_pustules, rust_by_spots, rust_by_stripes, blight_by_wilting]"

definition kb_questions :: "question list" where
  "kb_questions =
     [\<lparr>question_code = ''q_spread'', question_en = js ''Is it spreading?'',
       question_hi = [2347, 2376, 2354, 63], trigger_symptoms = Some [''wilting'', ''rust_spots''],
       answer_type = ''yes_no'', options = ''[]'', priority = 5\<rparr>,
      \<lparr>question_code = ''q_colour'', question_en = js ''Which colour are the spots?'',
       question_hi = [2352, 2306, 2327, 63], trigger_symptoms = Some [''rust_spots''],
       answer_type = ''text'', options = ''[]'', priority = 9\<rparr>,
      \<lparr>question_code = ''q_soil'', question_en = js ''Is the soil wet?'',
       question_hi = [2350, 2367, 2335, 2381, 2335, 2368, 63], trigger_symptoms = None,
       answer_type = ''yes_no'', options = ''[]'', priority = 7\<rparr>]"

text \<open>
  Three further rows, for the same three symptoms of wheat rust with the weights 0.7, 0.35
  and 0.15.
\<close>

definition row_07 :: mapping where
  "row_07 =
     \<lparr>symptom_id = ''s1'', disease_id = ''d-rust'', probability_weight = 0.7,
      is_primary_indicator = True\<rparr>"

definition row_035 :: mapping where
  "row_035 =
     \<lparr>symptom_id = ''s2'', disease_id = ''d-rust'', probability_weight = 0.35,
      is_primary_indicator = False\<rparr>"

definition row_015 :: mapping where
  "row_015 =
     \<lparr>symptom_id = ''s3'', disease_id = ''d-rust'', probability_weight = 0.15,
      is_primary_indicator = False\<rparr>"

text \<open>
  Three stored conversations: one with the two strong indicators and the score computed
  from them (0.8500000000000001 as JavaScript prints it), one with the weak indicator only,
  one freshly created.
\<close>

definition conv_strong :: conversation where
  "conv_strong =
     \<lparr>c_id = ''c-strong'', session_id = ''sess-strong'', user_id = ''farmer'', c_language = ''en'',
      crop_id = Some ''crop-wheat'',
      conversation_history = Some [\<lparr>role = User, content = js ''rust colored spots''\<rparr>,
                                   \<lparr>role = Assistant, content = js ''I noticed: Rust colored spots''\<rparr>],
      detected_symptoms = Some [''orange_pustules'', ''rust_spots''],
      current_probabilities = Some [(''d-rust'', 1914029841632461 / 2 ^ 51)], status = Active\<rparr>"

definition conv_weak :: conversation where
  "conv_weak =
     \<lparr>c_id = ''c-weak'', session_id = ''sess-weak'', user_id = ''farmer'', c_language = ''en'',
      crop_id = None, conversation_history = Some [],
      detected_symptoms = Some [''wilting''],
      current_probabilities = Some [(''d-blight'', 5404319552844595 / 2 ^ 55)], status = Active\<rparr>"

definition conv_fresh :: conversation where
  "conv_fresh =
     \<lparr>c_id = ''c-fresh'', session_id = ''sess-fresh'', user_id = ''farmer'', c_language = ''en'',
      crop_id = None, conversation_history = Some [], detected_symptoms = Some [],
      current_probabilities = Some [], status = Active\<rparr>"

definition kb :: database where
  "kb = \<lparr>symptoms = kb_symptoms, diseases = [wheat_rust, leaf_blight],
          symptom_disease_mapping = kb_mappings, diagnostic_questions = kb_questions,
          conversations = [conv_strong, conv_weak, conv_fresh], advisories = [], failing = []\<rparr>"

text \<open>
  A conversation whose only score is the number that JavaScript prints as 0.6, the double
  nearest to 0.6, and the knowledge base with this conversation.
\<close>

definition conv_edge :: conversation where
  "conv_edge =
     \<lparr>c_id = ''c-edge'', session_id = ''sess-edge'', user_id = ''farmer'', c_language = ''en'',
      crop_id = None, conversation_history = Some [], detected_symptoms = Some [''wilting''],
      current_probabilities = Some [(''d-blight'', 5404319552844595 / 2 ^ 53)], status = Active\<rparr>"

definition kb_edge :: database where
  "kb_edge = kb\<lparr>conversations := [conv_edge]\<rparr>"

text \<open>The advisories the handler returns for the weak and for the strong conversation.\<close>

definition weak_view :: advisory_view where
  "weak_view =
     \<lparr>v_diseaseName = js ''Leaf Blight'', v_description = js ''Blight of the leaves'',
      v_treatment = js ''Remove debris. 12. Spray copper'', v_prevention = None,
      v_confidenceScore = 5404319552844595 / 2 ^ 55, v_confidenceLevel = js ''Low'',
      v_actionSteps = [(1, js ''Remove debris.''), (2, js ''Spray copper'')],
      v_escalated = True\<rparr>"


text \<open>
  The evidence stored for a session: \<^verbatim>\<open>detected_symptoms || []\<close> of its conversation, and
  no evidence when the session has no conversation.
\<close>

definition evidence :: "database \<Rightarrow> string \<Rightarrow> string list" where
  "evidence db sid =
     (case find (\<lambda>c. session_id c = sid) (conversations db) of
        None \<Rightarrow> []
      | Some c \<Rightarrow> (case detected_symptoms c of None \<Rightarrow> [] | Some ds \<Rightarrow> ds))"

text \<open>A further turn of the weak conversation, and the first turn of a new session.\<close>

definition weak_turn :: conversation_request where
  "weak_turn =
     \<lparr>req_sessionId = ''sess-weak'', req_message = js ''RUST spots too'',
      req_language = ''en'', req_cropId = None\<rparr>"

definition first_turn :: conversation_request where
  "first_turn =
     \<lparr>req_sessionId = ''sess-new'', req_message = js ''Rust spots'',
      req_language = ''en'', req_cropId = Some ''crop-wheat''\<rparr>"

text \<open>
  The text of a question in the language of the conversation, and the condition under which
  a question qualifies: one of its trigger symptoms is in the evidence, and its text does not
  occur in any message the assistant has sent so far.
\<close>

definition question_text :: "string \<Rightarrow> question \<Rightarrow> jsstring" where
  "question_text language q = (if language = ''hi'' then question_hi q else question_en q)"

definition triggers :: "question \<Rightarrow> string set" where
  "triggers q = (case trigger_symptoms q of None \<Rightarrow> {} | Some ts \<Rightarrow> set ts)"

definition qualifies :: "string list \<Rightarrow> chat_message list \<Rightarrow> string \<Rightarrow> question \<Rightarrow> bool" where
  "qualifies detectedSymptoms history language q \<longleftrightarrow>
     triggers q \<inter> set detectedSymptoms \<noteq> {}
     \<and> \<not> (\<exists>m\<in>set history. role m = Assistant \<and> sublist (question_text language q) (content m))"

text \<open>A history in which the colour question has been asked.\<close>

definition asked_colour :: "chat_message list" where
  "asked_colour =
     [\<lparr>role = User, content = js ''rust spots''\<rparr>,
      \<lparr>role = Assistant, content = js ''I noticed: Rust colored spots'' @ [10, 10]
                                      @ js ''Which colour are the spots?''\<rparr>]"




section \<open>Properties of the rounding\<close>

lemma round_half_even_nonneg: "0 \<le> y \<Longrightarrow> 0 \<le> round_half_even y"
  by (auto simp: round_half_even_def Let_def)

lemma double_nonneg: "0 \<le> x \<Longrightarrow> 0 \<le> double x"
  unfolding double_def
  by (intro mult_nonneg_nonneg) (simp_all add: round_half_even_nonneg)

lemma double_0: "double 0 = 0"
  by (simp add: double_def round_half_even_def)

text \<open>The number of binary digits of a scaled number that lies between two powers of two.\<close>

lemma floorlog_scaled:
  fixes y :: real
  assumes lo: "2 ^ m \<le> y * 2 ^ k" and hi: "y * 2 ^ k < 2 ^ Suc m" and k: "k \<le> e"
  shows "floorlog 2 (nat \<lfloor>y * 2 ^ e\<rfloor>) = Suc m + (e - k)"
proof -
  let ?N = "nat \<lfloor>y * 2 ^ e\<rfloor>"
  let ?w = "Suc m + (e - k)"
  have sp: "(2::real) ^ e = 2 ^ k * 2 ^ (e - k)"
    using k by (simp flip: power_add)
  have eq: "y * 2 ^ e = (y * 2 ^ k) * 2 ^ (e - k)"
    by (simp only: sp mult.assoc)
  have "(2::real) ^ m * 2 ^ (e - k) \<le> (y * 2 ^ k) * 2 ^ (e - k)"
    using lo by (intro mult_right_mono) simp_all
  then have lo': "(2::real) ^ (m + (e - k)) \<le> y * 2 ^ e"
    by (simp only: eq power_add)
  have "(y * 2 ^ k) * 2 ^ (e - k) < (2::real) ^ Suc m * 2 ^ (e - k)"
    using hi by (intro mult_strict_right_mono) simp_all
  then have hi': "y * 2 ^ e < (2::real) ^ ?w"
    by (simp only: eq power_add)
  have "(0::real) \<le> 2 ^ (m + (e - k))" by simp
  then have "0 \<le> y * 2 ^ e" using lo' by (rule order_trans)
  then have nn: "0 \<le> \<lfloor>y * 2 ^ e\<rfloor>" by simp
  have "of_int (2 ^ (m + (e - k))) \<le> y * 2 ^ e" using lo' by simp
  then have "2 ^ (m + (e - k)) \<le> \<lfloor>y * 2 ^ e\<rfloor>" by (simp only: le_floor_iff)
  then have 1: "2 ^ (?w - 1) \<le> ?N" using nn by (simp add: le_nat_iff)
  have "y * 2 ^ e < of_int (2 ^ ?w)" using hi' by simp
  then have "\<lfloor>y * 2 ^ e\<rfloor> < 2 ^ ?w" by (simp only: floor_less_iff)
  then have 2: "?N < 2 ^ ?w" using nn by (simp add: nat_less_iff)
  have "floorlog 2 ?N \<le> ?w" using 2 by (intro floorlog_leI) simp_all
  moreover have "?w \<le> floorlog 2 ?N" using 1 by (intro floorlog_geI) simp_all
  ultimately show ?thesis by simp
qed

lemma ulp_exponent_eval:
  assumes lo: "2 ^ 52 \<le> \<bar>x\<bar> * 2 ^ k" and hi: "\<bar>x\<bar> * 2 ^ k < 2 ^ 53" and k: "k \<le> 1074"
  shows "ulp_exponent x = - int k"
proof -
  have hi': "\<bar>x\<bar> * 2 ^ k < 2 ^ Suc 52" using hi by simp
  have "floorlog 2 (nat \<lfloor>\<bar>x\<bar> * 2 ^ 1074\<rfloor>) = Suc 52 + (1074 - k)"
    using lo hi' k by (rule floorlog_scaled)
  then have "ulp_exponent x = int (Suc 52 + (1074 - k) - 53) - 1074"
    by (simp only: ulp_exponent_def)
  then show ?thesis using k by simp
qed

text \<open>
  Rounding a number whose significand, scaled by \<open>2 ^ k\<close>, has 53 bits: the scaled number
  is rounded to an integer.
\<close>

lemma double_eval:
  assumes "2 ^ 52 \<le> \<bar>x\<bar> * 2 ^ k" and "\<bar>x\<bar> * 2 ^ k < 2 ^ 53" and "k \<le> 1074"
  shows "double x = of_int (round_half_even (x * 2 ^ k)) / 2 ^ k"
  by (simp add: double_def ulp_exponent_eval[OF assms] power_int_minus field_simps)

text \<open>
  The numbers of the scenarios: the weights as doubles, their halves, and the sums in the
  order in which the loop forms them.
\<close>

lemma double_09: "double (0.9) = 8106479329266893 / 2 ^ 53"
  by (subst double_eval[where k = 53]) (simp_all add: round_half_even_def)

lemma half_09: "double (8106479329266893 / 2 ^ 53 * 0.5) = 8106479329266893 / 2 ^ 54"
  by (subst double_eval[where k = 54]) (simp_all add: round_half_even_def)

lemma first_09: "double (0 + 8106479329266893 / 2 ^ 54) = 8106479329266893 / 2 ^ 54"
  by (subst double_eval[where k = 54]) (simp_all add: round_half_even_def)

lemma double_08: "double (0.8) = 3602879701896397 / 2 ^ 52"
  by (subst double_eval[where k = 53]) (simp_all add: round_half_even_def)

lemma half_08: "double (3602879701896397 / 2 ^ 52 * 0.5) = 3602879701896397 / 2 ^ 53"
  by (subst double_eval[where k = 54]) (simp_all add: round_half_even_def)

lemma first_08: "double (0 + 3602879701896397 / 2 ^ 53) = 3602879701896397 / 2 ^ 53"
  by (subst double_eval[where k = 54]) (simp_all add: round_half_even_def)

lemma double_07: "double (0.7) = 3152519739159347 / 2 ^ 52"
  by (subst double_eval[where k = 53]) (simp_all add: round_half_even_def)

lemma half_07: "double (3152519739159347 / 2 ^ 52 * 0.5) = 3152519739159347 / 2 ^ 53"
  by (subst double_eval[where k = 54]) (simp_all add: round_half_even_def)

lemma first_07: "double (0 + 3152519739159347 / 2 ^ 53) = 3152519739159347 / 2 ^ 53"
  by (subst double_eval[where k = 54]) (simp_all add: round_half_even_def)

lemma double_035: "double (0.35) = 3152519739159347 / 2 ^ 53"
  by (subst double_eval[where k = 54]) (simp_all add: round_half_even_def)

lemma half_035: "double (3152519739159347 / 2 ^ 53 * 0.5) = 3152519739159347 / 2 ^ 54"
  by (subst double_eval[where k = 55]) (simp_all add: round_half_even_def)

lemma first_035: "double (0 + 3152519739159347 / 2 ^ 54) = 3152519739159347 / 2 ^ 54"
  by (subst double_eval[where k = 55]) (simp_all add: round_half_even_def)

lemma double_015: "double (0.15) = 5404319552844595 / 2 ^ 55"
  by (subst double_eval[where k = 55]) (simp_all add: round_half_even_def)

lemma half_015: "double (5404319552844595 / 2 ^ 55 * 0.5) = 5404319552844595 / 2 ^ 56"
  by (subst double_eval[where k = 56]) (simp_all add: round_half_even_def)

lemma first_015: "double (0 + 5404319552844595 / 2 ^ 56) = 5404319552844595 / 2 ^ 56"
  by (subst double_eval[where k = 56]) (simp_all add: round_half_even_def)

lemma double_03: "double (0.3) = 5404319552844595 / 2 ^ 54"
  by (subst double_eval[where k = 54]) (simp_all add: round_half_even_def)

lemma half_03: "double (5404319552844595 / 2 ^ 54 * 0.5) = 5404319552844595 / 2 ^ 55"
  by (subst double_eval[where k = 55]) (simp_all add: round_half_even_def)

lemma first_03: "double (0 + 5404319552844595 / 2 ^ 55) = 5404319552844595 / 2 ^ 55"
  by (subst double_eval[where k = 55]) (simp_all add: round_half_even_def)

lemma double_085: "double (0.85) = 7656119366529843 / 2 ^ 53"
  by (subst double_eval[where k = 53]) (simp_all add: round_half_even_def)

lemma sum_98_1: "double (8106479329266893 / 2 ^ 54 + 3602879701896397 / 2 ^ 53) = 1914029841632461 / 2 ^ 51"
  by (subst double_eval[where k = 53]) (simp_all add: round_half_even_def)

lemma sum_89_1: "double (3602879701896397 / 2 ^ 53 + 8106479329266893 / 2 ^ 54) = 1914029841632461 / 2 ^ 51"
  by (subst double_eval[where k = 53]) (simp_all add: round_half_even_def)

lemma sum_987_2: "double (1914029841632461 / 2 ^ 51 + 3152519739159347 / 2 ^ 53) = 1351079888211149 / 2 ^ 50"
  by (subst double_eval[where k = 52]) (simp_all add: round_half_even_def)

lemma ord_a_1: "double (3152519739159347 / 2 ^ 53 + 3152519739159347 / 2 ^ 54) = 1182194902184755 / 2 ^ 51"
  by (subst double_eval[where k = 53]) (simp_all add: round_half_even_def)

lemma ord_a_2: "double (1182194902184755 / 2 ^ 51 + 5404319552844595 / 2 ^ 56) = 2702159776422297 / 2 ^ 52"
  by (subst double_eval[where k = 53]) (simp_all add: round_half_even_def)

lemma ord_b_1: "double (3152519739159347 / 2 ^ 53 + 5404319552844595 / 2 ^ 56) = 7656119366529843 / 2 ^ 54"
  by (subst double_eval[where k = 54]) (simp_all add: round_half_even_def)

lemma ord_b_2: "double (7656119366529843 / 2 ^ 54 + 3152519739159347 / 2 ^ 54) = 5404319552844595 / 2 ^ 53"
  by (subst double_eval[where k = 53]) (simp_all add: round_half_even_def)

lemmas double_values = double_09 half_09 first_09 double_08 half_08 first_08 double_07 half_07
  first_07 double_035 half_035 first_035 double_015 half_015 first_015 double_03 half_03 first_03
  sum_98_1 sum_89_1 sum_987_2 ord_a_1 ord_a_2 ord_b_1 ord_b_2

text \<open>The decimal literals of the two handlers, as written and as the simplifier reads them.\<close>

lemma double_06: "double (0.6) = 5404319552844595 / 2 ^ 53"
  by (subst double_eval[where k = 53]) (simp_all add: round_half_even_def)

lemma double_075: "double (0.75) = 0.75"
  by (subst double_eval[where k = 53]) (simp_all add: round_half_even_def)

lemma double_three_fifths: "double (3 / 5) = 5404319552844595 / 2 ^ 53"
  by (subst double_eval[where k = 53]) (simp_all add: round_half_even_def)

lemma double_four_fifths: "double (4 / 5) = 3602879701896397 / 2 ^ 52"
  by (subst double_eval[where k = 53]) (simp_all add: round_half_even_def)

lemma double_three_quarters: "double (3 / 4) = 3 / 4"
  by (subst double_eval[where k = 53]) (simp_all add: round_half_even_def)

lemmas literal_values = double_three_fifths double_four_fifths double_three_quarters

lemmas kb_defs = kb_def kb_symptoms_def kb_mappings_def kb_questions_def wheat_rust_def
  leaf_blight_def conv_strong_def conv_weak_def conv_fresh_def orange_pustules_def
  rust_spots_def yellow_stripes_def wilting_def rust_by_pustules_def rust_by_spots_def
  rust_by_stripes_def blight_by_wilting_def

section \<open>Properties of the aggregation\<close>

lemma calculate_closed:
  "calculateDiseaseProbabilities db ds =
     (if ds = [] \<or> Symptoms \<in> set (failing db)
         \<or> (\<forall>s\<in>set (symptoms db). symptom_code s \<notin> set ds)
         \<or> Symptom_disease_mapping \<in> set (failing db)
      then []
      else map (\<lambda>(diseaseId, v). (diseaseId, min v 1)) (foldl add_mapping [] (evidence_rows db ds)))"
  by (auto simp: calculateDiseaseProbabilities_def select_def Let_def evidence_rows_def
      filter_empty_conv split: option.splits)

lemma set_update_subset: "set (AList.update k v al) \<subseteq> insert (k, v) (set al)"
  by (induction al) auto

lemma add_mapping_nonneg:
  assumes "\<forall>e\<in>set p. 0 \<le> snd e" and "0 \<le> probability_weight m"
  shows "\<forall>e\<in>set (add_mapping p m). 0 \<le> snd e"
proof
  fix e assume e: "e \<in> set (add_mapping p m)"
  have look: "0 \<le> (case map_of q (disease_id m) of Some v \<Rightarrow> v | None \<Rightarrow> 0)"
    if "\<forall>e\<in>set q. 0 \<le> snd e" for q :: "real obj"
    using that by (auto split: option.splits dest!: map_of_SomeD)
  define p1 where "p1 = (if map_of p (disease_id m) = None \<or> map_of p (disease_id m) = Some 0
                then AList.update (disease_id m) 0 p else p)"
  define v where "v = double ((case map_of p1 (disease_id m) of Some v \<Rightarrow> v | None \<Rightarrow> 0)
              + double (double (probability_weight m) * 0.5))"
  have p1: "\<forall>e\<in>set p1. 0 \<le> snd e"
    using assms(1) set_update_subset[of "disease_id m" 0 p] by (auto simp: p1_def)
  have "0 \<le> double (probability_weight m) * 0.5"
    using double_nonneg[OF assms(2)] by simp
  then have "0 \<le> double (double (probability_weight m) * 0.5)"
    by (rule double_nonneg)
  with look[OF p1] have v: "0 \<le> v"
    unfolding v_def by (intro double_nonneg) simp
  have "add_mapping p m = AList.update (disease_id m) v p1"
    by (simp add: add_mapping_def Let_def p1_def v_def)
  with e set_update_subset
  have "e = (disease_id m, v) \<or> e \<in> set p1"
    by fastforce
  then show "0 \<le> snd e"
    using p1 v by auto
qed

lemma foldl_add_mapping_nonneg:
  "\<forall>e\<in>set p. 0 \<le> snd e \<Longrightarrow> \<forall>m\<in>set ms. 0 \<le> probability_weight m
   \<Longrightarrow> \<forall>e\<in>set (foldl add_mapping p ms). 0 \<le> snd e"
proof (induction ms arbitrary: p)
  case Nil
  then show ?case by simp
next
  case (Cons m ms)
  have "\<forall>e\<in>set (add_mapping p m). 0 \<le> snd e"
    using Cons.prems by (intro add_mapping_nonneg) auto
  then show ?case using Cons.prems by (simp add: Cons.IH)
qed

text \<open>The loop on rows of one disease, and on a row of another disease.\<close>

lemma add_mapping_first:
  "add_mapping [] m = [(disease_id m, add_half 0 (probability_weight m))]"
  by (simp add: add_mapping_def add_half_def)

lemma add_mapping_same:
  "disease_id m = d \<Longrightarrow> add_mapping [(d, v)] m = [(d, add_half v (probability_weight m))]"
  by (simp add: add_mapping_def add_half_def)

lemma add_mapping_other:
  "disease_id m \<noteq> d \<Longrightarrow>
   add_mapping [(d, v)] m = [(d, v), (disease_id m, add_half 0 (probability_weight m))]"
  by (simp add: add_mapping_def add_half_def)

lemma foldl_add_mapping_same:
  "\<forall>m\<in>set ms. disease_id m = d \<Longrightarrow>
   foldl add_mapping [(d, v)] ms = [(d, foldl add_half v (map probability_weight ms))]"
  by (induction ms arbitrary: v) (simp_all add: add_mapping_same)

lemma foldl_add_mapping_first:
  assumes "\<forall>m\<in>set (m0 # ms). disease_id m = d"
  shows "foldl add_mapping [] (m0 # ms) = [(d, foldl add_half 0 (map probability_weight (m0 # ms)))]"
proof -
  from assms have 0: "disease_id m0 = d" and r: "\<forall>m\<in>set ms. disease_id m = d" by simp_all
  show ?thesis
    by (simp add: add_mapping_first 0 foldl_add_mapping_same[OF r])
qed

text \<open>The keys of the result are the diseases of the rows folded.\<close>

lemma keys_add_mapping: "fst ` set (add_mapping p m) = insert (disease_id m) (fst ` set p)"
  by (simp add: add_mapping_def Let_def dom_update)

lemma keys_foldl_add_mapping:
  "fst ` set (foldl add_mapping p ms) = fst ` set p \<union> disease_id ` set ms"
  by (induction ms arbitrary: p) (simp_all add: keys_add_mapping)

lemma keys_calculate:
  "fst ` set (calculateDiseaseProbabilities db ds) =
     (if ds = [] \<or> Symptoms \<in> set (failing db)
         \<or> (\<forall>s\<in>set (symptoms db). symptom_code s \<notin> set ds)
         \<or> Symptom_disease_mapping \<in> set (failing db)
      then {} else disease_id ` set (evidence_rows db ds))"
proof -
  have "fst ` set (map (\<lambda>(diseaseId, v). (diseaseId, min v (1::real))) p) = fst ` set p"
    for p :: "real obj"
    by (induction p) auto
  then show ?thesis
    by (simp add: calculate_closed keys_foldl_add_mapping)
qed

lemma evidence_rows_list:
  "evidence_rows db ds =
     filter (\<lambda>m. symptom_id m \<in> set (map s_id (filter (\<lambda>s. symptom_code s \<in> set ds) (symptoms db))))
       (symptom_disease_mapping db)"
  by (simp add: evidence_rows_def)

text \<open>The sums of the scenarios.\<close>

lemma score_09_08: "foldl add_half 0 [0.9, 0.8] = 1914029841632461 / 2 ^ 51"
  by (simp only: foldl.simps add_half_def double_values)

lemma score_08_09: "foldl add_half 0 [0.8, 0.9] = 1914029841632461 / 2 ^ 51"
  by (simp only: foldl.simps add_half_def double_values)

lemma score_09_08_07: "foldl add_half 0 [0.9, 0.8, 0.7] = 1351079888211149 / 2 ^ 50"
  by (simp only: foldl.simps add_half_def double_values)

lemma score_07_035_015: "foldl add_half 0 [0.7, 0.35, 0.15] = 2702159776422297 / 2 ^ 52"
  by (simp only: foldl.simps add_half_def double_values)

lemma score_07_015_035: "foldl add_half 0 [0.7, 0.15, 0.35] = 5404319552844595 / 2 ^ 53"
  by (simp only: foldl.simps add_half_def double_values)

lemma score_03: "add_half 0 0.3 = 5404319552844595 / 2 ^ 55"
  by (simp only: add_half_def double_values)

lemma kb_readable:
  "Symptoms \<notin> set (failing kb)" "Symptom_disease_mapping \<notin> set (failing kb)"
  by (simp_all add: kb_def)

lemma kb_two_symptoms:
  "calculateDiseaseProbabilities kb [''orange_pustules'', ''rust_spots'']
     = [(''d-rust'', 1914029841632461 / 2 ^ 51)]"
proof -
  have rows: "evidence_rows kb [''orange_pustules'', ''rust_spots'']
                = [rust_by_pustules, rust_by_spots]"
    by (simp add: evidence_rows_list kb_defs)
  have d: "\<forall>m\<in>set [rust_by_pustules, rust_by_spots]. disease_id m = ''d-rust''"
    by (simp add: rust_by_pustules_def rust_by_spots_def)
  have w: "map probability_weight [rust_by_pustules, rust_by_spots] = [0.9, 0.8]"
    by (simp add: rust_by_pustules_def rust_by_spots_def)
  have "foldl add_mapping [] [rust_by_pustules, rust_by_spots]
          = [(''d-rust'', 1914029841632461 / 2 ^ 51)]"
    by (simp only: foldl_add_mapping_first[OF d] w score_09_08)
  then show ?thesis
    by (simp add: calculate_closed rows kb_readable) (simp add: kb_defs)
qed

lemma kb_wilting:
  "calculateDiseaseProbabilities kb [''wilting''] = [(''d-blight'', 5404319552844595 / 2 ^ 55)]"
proof -
  have rows: "evidence_rows kb [''wilting''] = [blight_by_wilting]"
    by (simp add: evidence_rows_list kb_defs)
  have "foldl add_mapping [] [blight_by_wilting] = [(''d-blight'', add_half 0 0.3)]"
    by (simp add: add_mapping_first blight_by_wilting_def)
  then have "foldl add_mapping [] [blight_by_wilting] = [(''d-blight'', 5404319552844595 / 2 ^ 55)]"
    by (simp only: score_03)
  then show ?thesis
    by (simp add: calculate_closed rows kb_readable) (simp add: kb_defs)
qed

lemma kb_four_symptoms:
  "calculateDiseaseProbabilities kb [''orange_pustules'', ''rust_spots'', ''yellow_stripes'', ''wilting'']
     = [(''d-rust'', 1), (''d-blight'', 5404319552844595 / 2 ^ 55)]"
proof -
  have rows: "evidence_rows kb [''orange_pustules'', ''rust_spots'', ''yellow_stripes'', ''wilting'']
                = [rust_by_pustules, rust_by_spots, rust_by_stripes] @ [blight_by_wilting]"
    by (simp add: evidence_rows_list kb_defs)
  have d: "\<forall>m\<in>set [rust_by_pustules, rust_by_spots, rust_by_stripes]. disease_id m = ''d-rust''"
    by (simp add: rust_by_pustules_def rust_by_spots_def rust_by_stripes_def)
  have w: "map probability_weight [rust_by_pustules, rust_by_spots, rust_by_stripes]
             = [0.9, 0.8, 0.7]"
    by (simp add: rust_by_pustules_def rust_by_spots_def rust_by_stripes_def)
  have 3: "foldl add_mapping [] [rust_by_pustules, rust_by_spots, rust_by_stripes]
          = [(''d-rust'', 1351079888211149 / 2 ^ 50)]"
    by (simp only: foldl_add_mapping_first[OF d] w score_09_08_07)
  have o: "disease_id blight_by_wilting \<noteq> ''d-rust''"
    by (simp add: blight_by_wilting_def)
  have "add_mapping [(''d-rust'', 1351079888211149 / 2 ^ 50)] blight_by_wilting
          = [(''d-rust'', 1351079888211149 / 2 ^ 50), (''d-blight'', add_half 0 0.3)]"
    using add_mapping_other[OF o] by (simp add: blight_by_wilting_def)
  then have 4: "add_mapping [(''d-rust'', 1351079888211149 / 2 ^ 50)] blight_by_wilting
          = [(''d-rust'', 1351079888211149 / 2 ^ 50), (''d-blight'', 5404319552844595 / 2 ^ 55)]"
    by (simp only: score_03)
  have "foldl add_mapping [] ([rust_by_pustules, rust_by_spots, rust_by_stripes] @ [blight_by_wilting])
          = add_mapping (foldl add_mapping [] [rust_by_pustules, rust_by_spots, rust_by_stripes])
              blight_by_wilting"
    by simp
  then have "foldl add_mapping [] ([rust_by_pustules, rust_by_spots, rust_by_stripes] @ [blight_by_wilting])
          = [(''d-rust'', 1351079888211149 / 2 ^ 50), (''d-blight'', 5404319552844595 / 2 ^ 55)]"
    by (simp only: 3 4)
  then show ?thesis
    by (simp add: calculate_closed rows kb_readable) (simp add: kb_defs)
qed
text \<open>
  C6. With every weight of the table in [0, 1], every score that
  \<^verbatim>\<open>calculateDiseaseProbabilities\<close> returns lies in [0, 1], for every evidence list and
  whatever the state of the database.
\<close>

theorem scores_within_unit_interval:
  assumes "\<forall>m\<in>set (symptom_disease_mapping db).
             0 \<le> probability_weight m \<and> probability_weight m \<le> 1"
  shows "\<forall>(diseaseId, score)\<in>set (calculateDiseaseProbabilities db detectedSymptoms).
           0 \<le> score \<and> score \<le> 1"
proof -
  have "\<forall>m\<in>set (evidence_rows db detectedSymptoms). 0 \<le> probability_weight m"
    using assms by (simp add: evidence_rows_def)
  then have "\<forall>e\<in>set (foldl add_mapping [] (evidence_rows db detectedSymptoms)). 0 \<le> snd e"
    by (intro foldl_add_mapping_nonneg) simp_all
  then have "\<forall>(diseaseId, score)\<in>set (map (\<lambda>(diseaseId, v). (diseaseId, min v 1))
               (foldl add_mapping [] (evidence_rows db detectedSymptoms))). 0 \<le> score \<and> score \<le> 1"
    by auto
  then show ?thesis
    by (simp add: calculate_closed)
qed

text \<open>
  The knowledge base of the scenarios has weights in [0, 1]; with all four symptoms the sum
  for wheat rust is 1.2000000000000002 and is returned as 1.
\<close>

theorem scores_within_unit_interval_witness:
  "list_all (\<lambda>m. 0 \<le> probability_weight m \<and> probability_weight m \<le> 1) (symptom_disease_mapping kb)
   \<and> calculateDiseaseProbabilities kb [''orange_pustules'', ''rust_spots'', ''yellow_stripes'', ''wilting'']
       = [(''d-rust'', 1), (''d-blight'', 5404319552844595 / 2 ^ 55)]
   \<and> list_all (\<lambda>(diseaseId, score). 0 \<le> score \<and> score \<le> 1)
        (calculateDiseaseProbabilities kb
           [''orange_pustules'', ''rust_spots'', ''yellow_stripes'', ''wilting''])"
proof -
  have h: "\<forall>m\<in>set (symptom_disease_mapping kb).
             0 \<le> probability_weight m \<and> probability_weight m \<le> 1"
    by (simp add: kb_def kb_mappings_def rust_by_pustules_def rust_by_spots_def
        rust_by_stripes_def blight_by_wilting_def)
  show ?thesis
    using h kb_four_symptoms
      scores_within_unit_interval [OF h,
        of "[''orange_pustules'', ''rust_spots'', ''yellow_stripes'', ''wilting'']"]
    unfolding list_all_iff by blast
qed

text \<open>
  C4, as the code has it. The result of \<^verbatim>\<open>calculateDiseaseProbabilities\<close> depends on the
  evidence only through the set of its codes: two evidence lists with the same codes, in any
  order and with any repetition, give the same object. Folding the rows of the weight table
  in another order gives scores for the same diseases. Empty evidence gives the empty object.
\<close>

theorem aggregation_is_function_of_evidence_set:
  "(set detectedSymptoms = set detectedSymptoms' \<longrightarrow>
      calculateDiseaseProbabilities db detectedSymptoms
        = calculateDiseaseProbabilities db detectedSymptoms')
   \<and> (mset rows = mset (symptom_disease_mapping db) \<longrightarrow>
        fst ` set (calculateDiseaseProbabilities (db\<lparr>symptom_disease_mapping := rows\<rparr>)
                    detectedSymptoms)
          = fst ` set (calculateDiseaseProbabilities db detectedSymptoms))
   \<and> calculateDiseaseProbabilities db [] = []"
proof (intro conjI impI)
  assume eq: "set detectedSymptoms = set detectedSymptoms'"
  then have "(detectedSymptoms = []) = (detectedSymptoms' = [])" by auto
  then show "calculateDiseaseProbabilities db detectedSymptoms
        = calculateDiseaseProbabilities db detectedSymptoms'"
    by (simp add: calculate_closed evidence_rows_def eq)
next
  assume rows: "mset rows = mset (symptom_disease_mapping db)"
  let ?db = "db\<lparr>symptom_disease_mapping := rows\<rparr>"
  have "mset (evidence_rows ?db detectedSymptoms) = mset (evidence_rows db detectedSymptoms)"
    by (simp add: evidence_rows_def rows)
  then have "set (evidence_rows ?db detectedSymptoms) = set (evidence_rows db detectedSymptoms)"
    by (rule mset_eq_setD)
  then show "fst ` set (calculateDiseaseProbabilities ?db detectedSymptoms)
          = fst ` set (calculateDiseaseProbabilities db detectedSymptoms)"
    by (simp add: keys_calculate)
next
  show "calculateDiseaseProbabilities db [] = []"
    by (simp add: calculateDiseaseProbabilities_def)
qed

text \<open>
  The two strong indicators, reported in the other order and one of them twice, and the
  weight table read backwards.
\<close>

theorem aggregation_is_function_of_evidence_set_witness:
  "calculateDiseaseProbabilities kb [''rust_spots'', ''orange_pustules'', ''rust_spots'']
     = [(''d-rust'', 1914029841632461 / 2 ^ 51)]
   \<and> fst ` set (calculateDiseaseProbabilities (kb\<lparr>symptom_disease_mapping := rev kb_mappings\<rparr>)
                  [''orange_pustules'', ''rust_spots'']) = {''d-rust''}
   \<and> calculateDiseaseProbabilities kb [] = []"
proof -
  have a: "set [''orange_pustules'', ''rust_spots''] = set [''rust_spots'', ''orange_pustules'', ''rust_spots'']"
    by auto
  have b: "mset (rev kb_mappings) = mset (symptom_disease_mapping kb)"
    by (simp add: kb_def)
  show ?thesis
    using a b kb_two_symptoms
      aggregation_is_function_of_evidence_set [of "[''orange_pustules'', ''rust_spots'']"
        "[''rust_spots'', ''orange_pustules'', ''rust_spots'']" kb "rev kb_mappings"]
    by simp
qed

lemma order_a_score:
  "calculateDiseaseProbabilities (kb\<lparr>symptom_disease_mapping := [row_07, row_035, row_015]\<rparr>)
     [''orange_pustules'', ''rust_spots'', ''yellow_stripes'']
   = [(''d-rust'', 2702159776422297 / 2 ^ 52)]"
proof -
  let ?db = "kb\<lparr>symptom_disease_mapping := [row_07, row_035, row_015]\<rparr>"
  have rows: "evidence_rows ?db [''orange_pustules'', ''rust_spots'', ''yellow_stripes'']
                = [row_07, row_035, row_015]"
    by (simp add: evidence_rows_list kb_defs row_07_def row_035_def row_015_def)
  have d: "\<forall>m\<in>set [row_07, row_035, row_015]. disease_id m = ''d-rust''"
    by (simp add: row_07_def row_035_def row_015_def)
  have w: "map probability_weight [row_07, row_035, row_015] = [0.7, 0.35, 0.15]"
    by (simp add: row_07_def row_035_def row_015_def)
  have "foldl add_mapping [] [row_07, row_035, row_015] = [(''d-rust'', 2702159776422297 / 2 ^ 52)]"
    by (simp only: foldl_add_mapping_first[OF d] w score_07_035_015)
  then show ?thesis
    by (simp add: calculate_closed rows kb_readable) (simp add: kb_defs)
qed

lemma order_b_score:
  "calculateDiseaseProbabilities (kb\<lparr>symptom_disease_mapping := [row_07, row_015, row_035]\<rparr>)
     [''orange_pustules'', ''rust_spots'', ''yellow_stripes'']
   = [(''d-rust'', 5404319552844595 / 2 ^ 53)]"
proof -
  let ?db = "kb\<lparr>symptom_disease_mapping := [row_07, row_015, row_035]\<rparr>"
  have rows: "evidence_rows ?db [''orange_pustules'', ''rust_spots'', ''yellow_stripes'']
                = [row_07, row_015, row_035]"
    by (simp add: evidence_rows_list kb_defs row_07_def row_035_def row_015_def)
  have d: "\<forall>m\<in>set [row_07, row_015, row_035]. disease_id m = ''d-rust''"
    by (simp add: row_07_def row_035_def row_015_def)
  have w: "map probability_weight [row_07, row_015, row_035] = [0.7, 0.15, 0.35]"
    by (simp add: row_07_def row_035_def row_015_def)
  have "foldl add_mapping [] [row_07, row_015, row_035] = [(''d-rust'', 5404319552844595 / 2 ^ 53)]"
    by (simp only: foldl_add_mapping_first[OF d] w score_07_015_035)
  then show ?thesis
    by (simp add: calculate_closed rows kb_readable) (simp add: kb_defs)
qed

text \<open>
  The order of the weight rows can change a score. The same three rows (weights 0.7, 0.35
  and 0.15 on wheat rust) give 0.5999999999999999 when folded in this order and 0.6 when the
  last two are swapped: the additions round differently.
\<close>

theorem row_order_changes_score_counterexample:
  "mset [row_07, row_015, row_035] = mset [row_07, row_035, row_015]
   \<and> calculateDiseaseProbabilities (kb\<lparr>symptom_disease_mapping := [row_07, row_035, row_015]\<rparr>)
        [''orange_pustules'', ''rust_spots'', ''yellow_stripes'']
       = [(''d-rust'', 2702159776422297 / 2 ^ 52)]
   \<and> calculateDiseaseProbabilities (kb\<lparr>symptom_disease_mapping := [row_07, row_015, row_035]\<rparr>)
        [''orange_pustules'', ''rust_spots'', ''yellow_stripes'']
       = [(''d-rust'', 5404319552844595 / 2 ^ 53)]
   \<and> map_of (calculateDiseaseProbabilities (kb\<lparr>symptom_disease_mapping := [row_07, row_035, row_015]\<rparr>)
               [''orange_pustules'', ''rust_spots'', ''yellow_stripes''])
       \<noteq> map_of (calculateDiseaseProbabilities
                   (kb\<lparr>symptom_disease_mapping := [row_07, row_015, row_035]\<rparr>)
                   [''orange_pustules'', ''rust_spots'', ''yellow_stripes''])"
proof -
  have m: "mset [row_07, row_015, row_035] = mset [row_07, row_035, row_015]"
    by (simp add: add_mset_commute)
  have v: "(2702159776422297 / 2 ^ 52 :: real) \<noteq> 5404319552844595 / 2 ^ 53"
    by simp
  have ne: "map_of [(''d-rust'', 2702159776422297 / 2 ^ 52 :: real)]
          \<noteq> map_of [(''d-rust'', 5404319552844595 / 2 ^ 53)]"
  proof
    assume "map_of [(''d-rust'', 2702159776422297 / 2 ^ 52 :: real)]
          = map_of [(''d-rust'', 5404319552844595 / 2 ^ 53)]"
    then have "map_of [(''d-rust'', 2702159776422297 / 2 ^ 52 :: real)] ''d-rust''
          = map_of [(''d-rust'', 5404319552844595 / 2 ^ 53)] ''d-rust''"
      by (rule fun_cong)
    then have "(2702159776422297 / 2 ^ 52 :: real) = 5404319552844595 / 2 ^ 53"
      by (simp only: map_of.simps fst_conv snd_conv fun_upd_same option.inject)
    with v show False by (rule notE)
  qed
  show ?thesis
    unfolding order_a_score order_b_score
    by (intro conjI) (rule m, rule refl, rule refl, rule ne)
qed

section \<open>Properties of the advisory\<close>

lemma sort_desc_head:
  assumes "sort_desc p = (d, c) # rest"
  shows "(d, c) \<in> set p \<and> (\<forall>e\<in>set p. snd e \<le> c)"
proof -
  have "set (sort_desc p) = set p" by (simp add: sort_desc_def)
  with assms have mem: "set p = insert (d, c) (set rest)" by auto
  have "sorted (map (\<lambda>e. - snd e) (sort_desc p))" by (simp add: sort_desc_def)
  with assms have "\<forall>e\<in>set rest. - c \<le> - snd e" by auto
  with mem show ?thesis by auto
qed

text \<open>The first entry after the sort carries the maximum of the scores.\<close>

lemma sort_desc_Max:
  assumes "sort_desc p = (d, c) # rest"
  shows "c = Max (snd ` set p)"
proof -
  from sort_desc_head[OF assms] have "(d, c) \<in> set p" and "\<forall>e\<in>set p. snd e \<le> c" by auto
  then have "Max (snd ` set p) = c"
    by (intro Max_eqI) force+
  then show ?thesis by simp
qed

lemma sort_desc_Nil: "sort_desc p = [] \<longleftrightarrow> p = []"
proof -
  have "length (sort_desc p) = length p" by (simp add: sort_desc_def)
  then show ?thesis by (cases p; cases "sort_desc p") simp_all
qed

lemma single_Some:
  "data (single (select db t rows)) = Some x \<longleftrightarrow> t \<notin> set (failing db) \<and> rows = [x]"
  by (auto simp: single_def select_def split: list.splits)

lemma filter_single_map:
  assumes "filter (\<lambda>c. f c = k) xs = [x]" and "\<And>c. f (g c) = f c"
  shows "filter (\<lambda>c. f c = k) (map (\<lambda>c. if f c = k then g c else c) xs) = [g x]"
proof -
  have "filter (\<lambda>c. f c = k) (map (\<lambda>c. if f c = k then g c else c) xs)
      = map g (filter (\<lambda>c. f c = k) xs)"
    by (induction xs) (auto simp: assms(2))
  then show ?thesis by (simp add: assms(1))
qed

lemma conversation_by_id_update_status:
  assumes "data (conversation_by_id db cid) = Some conv"
  shows "data (conversation_by_id (update_status (insert_advisory db a) cid st) cid)
           = Some (conv\<lparr>status := st\<rparr>)"
proof -
  from assms have nf: "Conversations \<notin> set (failing db)"
    and f: "filter (\<lambda>c. c_id c = cid) (conversations db) = [conv]"
    by (simp_all add: conversation_by_id_def single_Some)
  have "filter (\<lambda>c. c_id c = cid)
          (map (\<lambda>c. if c_id c = cid then c\<lparr>status := st\<rparr> else c) (conversations db))
        = [conv\<lparr>status := st\<rparr>]"
    by (rule filter_single_map[OF f]) simp
  then show ?thesis
    using nf by (simp add: conversation_by_id_def single_Some update_status_def insert_advisory_def)
qed

text \<open>What a successful answer of the handler says about its run.\<close>

lemma generate_advisory_ok:
  assumes "generate_advisory db user cid language = (Http_ok view, db')"
  obtains uid conv p d c rest disease where
    "user = Some uid" "data (conversation_by_id db cid) = Some conv"
    "current_probabilities conv = Some p" "p \<noteq> []"
    "sort_desc p = (d, c) # rest" "data (disease_by_id db d) = Some disease"
    "v_escalated view = (c < double 0.6)" "v_confidenceScore view = c"
    "v_confidenceLevel view = confidenceLevelText language c"
    "v_actionSteps view =
       actionSteps (if language = ''hi'' then treatment_hi disease else treatment_en disease)"
    "db' = update_status (insert_advisory db
              \<lparr>a_conversation_id = cid, a_user_id = uid, a_disease_id = d, confidence_score = c,
               a_language = language, action_steps = v_actionSteps view,
               escalated = (c < double 0.6)\<rparr>) cid (if c < double 0.6 then Escalated else Completed)"
  using assms
  unfolding generate_advisory_def
  by (auto simp: Let_def split: option.splits list.splits if_splits prod.splits)

text \<open>The handler answers with an advisory when the conversation and the top disease are read.\<close>

lemma generate_advisory_succeeds:
  assumes "data (conversation_by_id db cid) = Some conv"
    and "current_probabilities conv = Some p" and "p \<noteq> []"
    and "data (disease_by_id db (fst (hd (sort_desc p)))) = Some disease"
  shows "\<exists>view db'. generate_advisory db (Some uid) cid language = (Http_ok view, db')"
proof -
  from assms(3) obtain d c rest where s: "sort_desc p = (d, c) # rest"
    by (cases "sort_desc p") (auto simp: sort_desc_Nil)
  with assms(4) have "data (disease_by_id db d) = Some disease" by simp
  then show ?thesis
    using assms(1-3) s by (simp add: generate_advisory_def Let_def)
qed

text \<open>
  C1. Whenever the handler composes an advisory for a conversation with a non-empty
  \<^verbatim>\<open>current_probabilities\<close>, the advisory is escalated exactly when the maximum of the scores is
  below 0.6, the number that the literal of the source denotes; the stored advisory row
  carries the same flag, and the conversation read back from the database after the request
  has the status \<open>Escalated\<close> when the flag is set and \<open>Completed\<close> otherwise.
\<close>

theorem escalation_threshold:
  assumes "data (conversation_by_id db cid) = Some conv"
    and "current_probabilities conv = Some p" and "p \<noteq> []"
    and "generate_advisory db user cid language = (Http_ok view, db')"
  shows "(v_escalated view \<longleftrightarrow> Max (snd ` set p) < double 0.6)
       \<and> data (conversation_by_id db' cid)
           = Some (conv\<lparr>status := (if v_escalated view then Escalated else Completed)\<rparr>)
       \<and> (Advisories \<in> set (failing db) \<or>
            (\<exists>a. advisories db' = advisories db @ [a] \<and> a_conversation_id a = cid
                 \<and> escalated a = v_escalated view))"
proof -
  from assms(4) obtain uid conv' p' d c rest disease where
    run: "data (conversation_by_id db cid) = Some conv'"
      "current_probabilities conv' = Some p'" "sort_desc p' = (d, c) # rest"
      "v_escalated view = (c < double 0.6)"
      "db' = update_status (insert_advisory db
              \<lparr>a_conversation_id = cid, a_user_id = uid, a_disease_id = d, confidence_score = c,
               a_language = language, action_steps = v_actionSteps view,
               escalated = (c < double 0.6)\<rparr>) cid (if c < double 0.6 then Escalated else Completed)"
    by (rule generate_advisory_ok)
  from run(1,2) assms(1,2) have same: "conv' = conv" "p' = p" by simp_all
  have top: "c = Max (snd ` set p)"
    using run(3) same by (intro sort_desc_Max) simp
  have flag: "v_escalated view \<longleftrightarrow> Max (snd ` set p) < double 0.6"
    using run(4) top by simp
  have stat: "data (conversation_by_id db' cid)
           = Some (conv\<lparr>status := (if v_escalated view then Escalated else Completed)\<rparr>)"
    unfolding run(5) run(4) by (rule conversation_by_id_update_status[OF assms(1)])
  have row: "Advisories \<in> set (failing db) \<or>
            (\<exists>a. advisories db' = advisories db @ [a] \<and> a_conversation_id a = cid
                 \<and> escalated a = v_escalated view)"
    unfolding run(5) run(4) by (simp add: update_status_def insert_advisory_def)
  from flag stat row show ?thesis by blast
qed

lemmas string_defs = js_def is_digit_def is_space_def trim_def split_def digits_dot_def
  spaces_commas_def

lemmas advisory_defs = generate_advisory_def conversation_by_id_def disease_by_id_def single_def
  select_def sort_desc_def actionSteps_def treatmentSteps_def confidenceLevelText_def
  insert_advisory_def update_status_def

lemma kb_weak_advisory:
  "fst (generate_advisory kb (Some ''farmer'') ''c-weak'' ''en'') = Http_ok weak_view"
  by (simp add: advisory_defs kb_defs string_defs weak_view_def Let_def literal_values)


lemma kb_conversation_weak: "data (conversation_by_id kb ''c-weak'') = Some conv_weak"
  by (simp add: conversation_by_id_def single_def select_def kb_defs)

lemma kb_conversation_strong: "data (conversation_by_id kb ''c-strong'') = Some conv_strong"
  by (simp add: conversation_by_id_def single_def select_def kb_defs)

text \<open>
  The weak conversation (score 0.15, as a double) is escalated, and read back as \<open>Escalated\<close>.
  The conversation with the score 0.6 is not escalated, and read back as \<open>Completed\<close>.
\<close>

theorem escalation_threshold_witness:
  "fst (generate_advisory kb (Some ''farmer'') ''c-weak'' ''en'') = Http_ok weak_view
   \<and> v_escalated weak_view
   \<and> Max (snd ` set [(''d-blight'', 5404319552844595 / 2 ^ 55 :: real)]) < double 0.6
   \<and> data (conversation_by_id (snd (generate_advisory kb (Some ''farmer'') ''c-weak'' ''en'')) ''c-weak'')
       = Some (conv_weak\<lparr>status := Escalated\<rparr>)
   \<and> double 0.6 = 5404319552844595 / 2 ^ 53
   \<and> current_probabilities conv_edge = Some [(''d-blight'', 5404319552844595 / 2 ^ 53)]
   \<and> (\<exists>view db'. generate_advisory kb_edge (Some ''farmer'') ''c-edge'' ''en'' = (Http_ok view, db')
         \<and> \<not> v_escalated view
         \<and> data (conversation_by_id db' ''c-edge'') = Some (conv_edge\<lparr>status := Completed\<rparr>))"
proof -
  have p: "current_probabilities conv_weak = Some [(''d-blight'', 5404319552844595 / 2 ^ 55)]"
    by (simp add: conv_weak_def)
  have ne: "[(''d-blight'', 5404319552844595 / 2 ^ 55 :: real)] \<noteq> []" by simp
  have run: "generate_advisory kb (Some ''farmer'') ''c-weak'' ''en''
      = (Http_ok weak_view, snd (generate_advisory kb (Some ''farmer'') ''c-weak'' ''en''))"
    using kb_weak_advisory by (simp add: prod_eq_iff)
  have e: "v_escalated weak_view" by (simp add: weak_view_def)
  have weak: "fst (generate_advisory kb (Some ''farmer'') ''c-weak'' ''en'') = Http_ok weak_view
   \<and> v_escalated weak_view
   \<and> Max (snd ` set [(''d-blight'', 5404319552844595 / 2 ^ 55 :: real)]) < double 0.6
   \<and> data (conversation_by_id (snd (generate_advisory kb (Some ''farmer'') ''c-weak'' ''en'')) ''c-weak'')
       = Some (conv_weak\<lparr>status := Escalated\<rparr>)"
    using escalation_threshold [OF kb_conversation_weak p ne run] kb_weak_advisory e by simp
  have c: "data (conversation_by_id kb_edge ''c-edge'') = Some conv_edge"
    by (simp add: conversation_by_id_def single_def select_def kb_edge_def kb_def conv_edge_def)
  have q: "current_probabilities conv_edge = Some [(''d-blight'', 5404319552844595 / 2 ^ 53)]"
    by (simp add: conv_edge_def)
  have nq: "[(''d-blight'', 5404319552844595 / 2 ^ 53 :: real)] \<noteq> []" by simp
  have d: "data (disease_by_id kb_edge (fst (hd (sort_desc [(''d-blight'', 5404319552844595 / 2 ^ 53)]))))
             = Some leaf_blight"
    by (simp add: disease_by_id_def single_def select_def sort_desc_def kb_edge_def kb_defs)
  from generate_advisory_succeeds [OF c q nq d, of "''farmer''" "''en''"]
  obtain view db' where
    r: "generate_advisory kb_edge (Some ''farmer'') ''c-edge'' ''en'' = (Http_ok view, db')"
    by blast
  have m: "Max (snd ` set [(''d-blight'', 5404319552844595 / 2 ^ 53 :: real)])
             = 5404319552844595 / 2 ^ 53"
    by simp
  have n: "\<not> (5404319552844595 / 2 ^ 53 :: real) < 5404319552844595 / 2 ^ 53"
    by (rule less_irrefl)
  from escalation_threshold [OF c q nq r]
  have f: "v_escalated view \<longleftrightarrow> Max (snd ` set [(''d-blight'', 5404319552844595 / 2 ^ 53 :: real)]) < double 0.6"
    and st: "data (conversation_by_id db' ''c-edge'')
           = Some (conv_edge\<lparr>status := (if v_escalated view then Escalated else Completed)\<rparr>)"
    by blast+
  have nv: "\<not> v_escalated view"
  proof
    assume "v_escalated view"
    with f have "Max (snd ` set [(''d-blight'', 5404319552844595 / 2 ^ 53 :: real)]) < double 0.6"
      by (rule iffD1)
    then have "(5404319552844595 / 2 ^ 53 :: real) < 5404319552844595 / 2 ^ 53"
      unfolding m double_06 .
    with n show False by (rule notE)
  qed
  from st nv have st': "data (conversation_by_id db' ''c-edge'') = Some (conv_edge\<lparr>status := Completed\<rparr>)"
    by simp
  from r nv st' have edge: "\<exists>view db'. generate_advisory kb_edge (Some ''farmer'') ''c-edge'' ''en'' = (Http_ok view, db')
         \<and> \<not> v_escalated view
         \<and> data (conversation_by_id db' ''c-edge'') = Some (conv_edge\<lparr>status := Completed\<rparr>)"
    by blast
  from weak double_06 q edge show ?thesis
    by blast
qed

text \<open>
  C2, as the handler has it. For a conversation that can be read, the answer is the 400
  response "no diagnosis" exactly when \<^verbatim>\<open>current_probabilities\<close> is null or empty. With at
  least one scored disease the handler composes an advisory whenever the record of the
  top-scoring disease can be read.
\<close>

theorem no_evidence_exactly_when_empty:
  assumes "data (conversation_by_id db cid) = Some conv"
  shows "(fst (generate_advisory db (Some uid) cid language) = Http_error 400 no_diagnosis
            \<longleftrightarrow> current_probabilities conv = None \<or> current_probabilities conv = Some [])
       \<and> (\<forall>p disease. current_probabilities conv = Some p \<and> p \<noteq> []
              \<and> data (disease_by_id db (fst (hd (sort_desc p)))) = Some disease
            \<longrightarrow> (\<exists>view. fst (generate_advisory db (Some uid) cid language) = Http_ok view))"
proof (intro conjI allI impI)
  show "fst (generate_advisory db (Some uid) cid language) = Http_error 400 no_diagnosis
            \<longleftrightarrow> current_probabilities conv = None \<or> current_probabilities conv = Some []"
    using assms
    by (auto simp: generate_advisory_def Let_def sort_desc_Nil
        split: option.splits list.splits prod.splits)
next
  fix p disease
  assume "current_probabilities conv = Some p \<and> p \<noteq> []
              \<and> data (disease_by_id db (fst (hd (sort_desc p)))) = Some disease"
  then have "\<exists>view db'. generate_advisory db (Some uid) cid language = (Http_ok view, db')"
    using assms by (intro generate_advisory_succeeds) auto
  then show "\<exists>view. fst (generate_advisory db (Some uid) cid language) = Http_ok view"
    by auto
qed

lemma kb_conversation_fresh: "data (conversation_by_id kb ''c-fresh'') = Some conv_fresh"
  by (simp add: conversation_by_id_def single_def select_def kb_defs)

text \<open>
  The fresh conversation gets the 400 response; the weak one (score 0.15, as a double) gets an advisory.
\<close>

theorem no_evidence_exactly_when_empty_witness:
  "current_probabilities conv_fresh = Some []
   \<and> fst (generate_advisory kb (Some ''farmer'') ''c-fresh'' ''en'') = Http_error 400 no_diagnosis
   \<and> current_probabilities conv_weak = Some [(''d-blight'', 5404319552844595 / 2 ^ 55)]
   \<and> (\<exists>view. fst (generate_advisory kb (Some ''farmer'') ''c-weak'' ''en'') = Http_ok view)"
proof -
  have f: "current_probabilities conv_fresh = Some []"
    by (simp add: conv_fresh_def)
  have w: "current_probabilities conv_weak = Some [(''d-blight'', 5404319552844595 / 2 ^ 55)]"
    by (simp add: conv_weak_def)
  have d: "data (disease_by_id kb (fst (hd (sort_desc [(''d-blight'', 5404319552844595 / 2 ^ 55)])))) = Some leaf_blight"
    by (simp add: disease_by_id_def single_def select_def sort_desc_def kb_defs)
  from no_evidence_exactly_when_empty [OF kb_conversation_fresh, of "''farmer''" "''en''"] f
  have 1: "fst (generate_advisory kb (Some ''farmer'') ''c-fresh'' ''en'') = Http_error 400 no_diagnosis"
    by blast
  from no_evidence_exactly_when_empty [OF kb_conversation_weak, of "''farmer''" "''en''"] w d
  have 2: "\<exists>view. fst (generate_advisory kb (Some ''farmer'') ''c-weak'' ''en'') = Http_ok view"
    by blast
  from f 1 w 2 show ?thesis by blast
qed

text \<open>
  A scored disease alone does not make an advisory: the weak conversation has one, but with
  no record of that disease in the table the handler throws
  \<^verbatim>\<open>Disease information not found\<close> and answers 500.
\<close>

theorem advisory_needs_disease_record_counterexample:
  "data (conversation_by_id (kb\<lparr>diseases := [wheat_rust]\<rparr>) ''c-weak'') = Some conv_weak
   \<and> current_probabilities conv_weak = Some [(''d-blight'', 5404319552844595 / 2 ^ 55)]
   \<and> fst (generate_advisory (kb\<lparr>diseases := [wheat_rust]\<rparr>) (Some ''farmer'') ''c-weak'' ''en'')
       = Http_error 500 ''Disease information not found''"
  by (simp add: advisory_defs kb_defs Let_def)

text \<open>
  C3, as the code has it. Two symptoms of the evidence, their two mapping rows on one disease
  with the weights 0.9 and 0.8: the aggregation returns for that disease alone the score
  \<open>1914029841632461 / 2 ^ 51\<close>, the double that JavaScript prints as 0.8500000000000001, and the
  advisory composed from this score has the level High and is not escalated.
\<close>

theorem two_strong_symptoms_scenario:
  assumes "filter (\<lambda>s. symptom_code s \<in> set ds) (symptoms db) = [s1, s2]"
    and "filter (\<lambda>m. symptom_id m \<in> {s_id s1, s_id s2}) (symptom_disease_mapping db) = [m1, m2]"
    and "disease_id m1 = d" and "disease_id m2 = d"
    and "{probability_weight m1, probability_weight m2} = {0.9, 0.8}"
    and "Symptoms \<notin> set (failing db)" and "Symptom_disease_mapping \<notin> set (failing db)"
    and "data (conversation_by_id db cid) = Some conv"
    and "current_probabilities conv = Some (calculateDiseaseProbabilities db ds)"
    and "data (disease_by_id db d) = Some disease"
  shows "calculateDiseaseProbabilities db ds = [(d, 1914029841632461 / 2 ^ 51)]
       \<and> (\<exists>view db'. generate_advisory db (Some uid) cid language = (Http_ok view, db')
             \<and> v_confidenceScore view = 1914029841632461 / 2 ^ 51
             \<and> v_confidenceLevel view
                 = (if language = ''hi'' then [2313, 2330, 2381, 2330] else js ''High'')
             \<and> \<not> v_escalated view)"
proof -
  from assms(1) have ne: "ds \<noteq> []" by auto
  have "(probability_weight m1 = 0.9 \<and> probability_weight m2 = 0.8)
        \<or> (probability_weight m1 = 0.8 \<and> probability_weight m2 = 0.9)"
    using assms(5) by (auto simp: doubleton_eq_iff)
  then have v: "add_half (add_half 0 (probability_weight m1)) (probability_weight m2)
                  = 1914029841632461 / 2 ^ 51"
  proof (elim disjE conjE)
    assume a: "probability_weight m1 = 0.9" "probability_weight m2 = 0.8"
    have "add_half (add_half 0 0.9) 0.8 = 1914029841632461 / 2 ^ 51"
      using score_09_08 by (simp only: foldl.simps)
    then show ?thesis by (simp only: a)
  next
    assume a: "probability_weight m1 = 0.8" "probability_weight m2 = 0.9"
    have "add_half (add_half 0 0.8) 0.9 = 1914029841632461 / 2 ^ 51"
      using score_08_09 by (simp only: foldl.simps)
    then show ?thesis by (simp only: a)
  qed
  have "add_mapping (add_mapping [] m1) m2
          = [(d, add_half (add_half 0 (probability_weight m1)) (probability_weight m2))]"
    by (simp add: add_mapping_first assms(3) add_mapping_same[OF assms(4)])
  then have fold: "add_mapping (add_mapping [] m1) m2 = [(d, 1914029841632461 / 2 ^ 51)]"
    by (simp only: v)
  have "calculateDiseaseProbabilities db ds
          = map (\<lambda>(diseaseId, v). (diseaseId, min v 1)) (add_mapping (add_mapping [] m1) m2)"
    using ne assms(1,2,6,7)
    by (simp add: calculateDiseaseProbabilities_def select_def Let_def)
  then have calc: "calculateDiseaseProbabilities db ds = [(d, 1914029841632461 / 2 ^ 51)]"
    by (simp only: fold) simp
  have p: "current_probabilities conv = Some [(d, 1914029841632461 / 2 ^ 51)]"
    using assms(9) by (simp only: calc)
  have s: "sort_desc [(d, 1914029841632461 / 2 ^ 51 :: real)] = [(d, 1914029841632461 / 2 ^ 51)]"
    by (simp add: sort_desc_def)
  have top: "data (disease_by_id db (fst (hd (sort_desc [(d, 1914029841632461 / 2 ^ 51)]))))
               = Some disease"
    using assms(10) by (simp add: sort_desc_def)
  have "\<exists>view db'. generate_advisory db (Some uid) cid language = (Http_ok view, db')"
    by (rule generate_advisory_succeeds [OF assms(8) p _ top]) simp
  then obtain view db' where
    run: "generate_advisory db (Some uid) cid language = (Http_ok view, db')" by blast
  from run obtain conv' p' d' c rest where
    r: "data (conversation_by_id db cid) = Some conv'" "current_probabilities conv' = Some p'"
       "sort_desc p' = (d', c) # rest" "v_escalated view = (c < double 0.6)"
       "v_confidenceScore view = c" "v_confidenceLevel view = confidenceLevelText language c"
    by (rule generate_advisory_ok)
  from r(1,2) assms(8) p have "p' = [(d, 1914029841632461 / 2 ^ 51)]" by simp
  with r(3) s have c: "c = 1914029841632461 / 2 ^ 51" by simp
  have "v_confidenceScore view = 1914029841632461 / 2 ^ 51" using r(5) c by simp
  moreover have "v_confidenceLevel view
                 = (if language = ''hi'' then [2313, 2330, 2381, 2330] else js ''High'')"
    using r(6) c by (simp add: confidenceLevelText_def literal_values)
  moreover have "\<not> v_escalated view" using r(4) c by (simp add: literal_values)
  ultimately show ?thesis using calc run by blast
qed

text \<open>
  The strong conversation of the scenario data: score 0.8500000000000001, level High, not
  escalated.
\<close>

theorem two_strong_symptoms_scenario_witness:
  "calculateDiseaseProbabilities kb [''orange_pustules'', ''rust_spots'']
     = [(''d-rust'', 1914029841632461 / 2 ^ 51)]
   \<and> (\<exists>view db'. generate_advisory kb (Some ''farmer'') ''c-strong'' ''en'' = (Http_ok view, db')
         \<and> v_confidenceScore view = 1914029841632461 / 2 ^ 51
         \<and> v_confidenceLevel view = js ''High''
         \<and> \<not> v_escalated view)"
proof -
  have 1: "filter (\<lambda>s. symptom_code s \<in> set [''orange_pustules'', ''rust_spots'']) (symptoms kb)
             = [orange_pustules, rust_spots]"
    by (simp add: kb_defs)
  have 2: "filter (\<lambda>m. symptom_id m \<in> {s_id orange_pustules, s_id rust_spots})
             (symptom_disease_mapping kb) = [rust_by_pustules, rust_by_spots]"
    by (simp add: kb_defs)
  have 3: "disease_id rust_by_pustules = ''d-rust''" "disease_id rust_by_spots = ''d-rust''"
    by (simp_all add: kb_defs)
  have 4: "{probability_weight rust_by_pustules, probability_weight rust_by_spots} = {0.9, 0.8}"
    by (simp add: kb_defs)
  have 6: "current_probabilities conv_strong
             = Some (calculateDiseaseProbabilities kb [''orange_pustules'', ''rust_spots''])"
    by (simp only: kb_two_symptoms) (simp add: conv_strong_def)
  have 7: "data (disease_by_id kb ''d-rust'') = Some wheat_rust"
    by (simp add: disease_by_id_def single_def select_def kb_defs)
  show ?thesis
    using two_strong_symptoms_scenario [OF 1 2 3 4 kb_readable kb_conversation_strong 6 7,
      of "''farmer''" "''en''"]
    by simp
qed

text \<open>
  The score of the scenario is not 0.85: the halves of the weights, 0.45 and 0.4 as doubles,
  add up to a number half-way between two doubles, and the sum is rounded up to the double
  above the one nearest to 0.85.
\<close>

theorem score_is_not_085_counterexample:
  "probability_weight rust_by_pustules = 0.9 \<and> probability_weight rust_by_spots = 0.8
   \<and> calculateDiseaseProbabilities kb [''orange_pustules'', ''rust_spots'']
       = [(''d-rust'', 1914029841632461 / 2 ^ 51)]
   \<and> (1914029841632461 / 2 ^ 51 :: real) \<noteq> 0.85
   \<and> double 0.85 = 7656119366529843 / 2 ^ 53
   \<and> (1914029841632461 / 2 ^ 51 :: real) \<noteq> double 0.85"
proof -
  have w: "probability_weight rust_by_pustules = 0.9" "probability_weight rust_by_spots = 0.8"
    by (simp_all add: rust_by_pustules_def rust_by_spots_def)
  have 1: "(1914029841632461 / 2 ^ 51 :: real) \<noteq> 0.85" by simp
  have h: "(1914029841632461 / 2 ^ 51 :: real) \<noteq> 7656119366529843 / 2 ^ 53" by simp
  have 2: "(1914029841632461 / 2 ^ 51 :: real) \<noteq> double 0.85"
    unfolding double_085 by (rule h)
  show ?thesis
    by (intro conjI) (rule w(1), rule w(2), rule kb_two_symptoms, rule 1, rule double_085, rule 2)
qed

section \<open>Properties of a turn\<close>

lemma push_symptom_present: "symptom_code m \<in> set ds \<Longrightarrow> push_symptom ds m = ds"
  by (simp add: push_symptom_def)

lemma set_push_symptom: "set (push_symptom ds m) = insert (symptom_code m) (set ds)"
  by (auto simp: push_symptom_def)

lemma distinct_push_symptom: "distinct ds \<Longrightarrow> distinct (push_symptom ds m)"
  by (simp add: push_symptom_def)

lemma set_merge_symptoms: "set (merge_symptoms ds ms) = set ds \<union> symptom_code ` set ms"
  unfolding merge_symptoms_def
  by (induction ms arbitrary: ds) (auto simp: set_push_symptom)

lemma distinct_merge_symptoms: "distinct ds \<Longrightarrow> distinct (merge_symptoms ds ms)"
  unfolding merge_symptoms_def
  by (induction ms arbitrary: ds) (simp_all add: distinct_push_symptom)

lemma find_SomeD: "find P xs = Some x \<Longrightarrow> x \<in> set xs \<and> P x"
  by (induction xs) (auto split: if_splits)

text \<open>
  The update of the session \<open>rsid\<close> applied to the stored conversations, followed by the
  conversations \<open>extra\<close> of that session: a relation \<open>R\<close> that holds between the old and the
  new evidence of the session holds between the evidence of every session before and after.
\<close>

lemma evidence_update:
  fixes R :: "string list \<Rightarrow> string list \<Rightarrow> bool"
  assumes refl: "\<And>l. R l l"
    and upd: "\<forall>c\<in>set xs. session_id c = rsid \<longrightarrow>
                R (case detected_symptoms c of None \<Rightarrow> [] | Some ds \<Rightarrow> ds) D"
    and ext: "\<forall>c\<in>set extra. session_id c = rsid"
    and nil: "extra \<noteq> [] \<Longrightarrow> R [] D"
  shows "R (evidence (db\<lparr>conversations := xs\<rparr>) s)
           (evidence (update_conversation (db\<lparr>conversations := xs @ extra\<rparr>) rsid H D P) s)
         \<or> Conversations \<in> set (failing db)"
proof (cases "Conversations \<in> set (failing db)")
  case True
  then show ?thesis by simp
next
  case False
  let ?u = "\<lambda>c. if session_id c = rsid
                then c\<lparr>conversation_history := Some H, detected_symptoms := Some D,
                        current_probabilities := Some P\<rparr>
                else c"
  let ?sy = "\<lambda>oc. case oc of None \<Rightarrow> []
               | Some c \<Rightarrow> (case detected_symptoms c of None \<Rightarrow> [] | Some ds \<Rightarrow> ds)"
  have tail: "R [] (?sy (find (\<lambda>c. session_id c = s) (map ?u extra)))"
  proof (cases "find (\<lambda>c. session_id c = s) (map ?u extra)")
    case None
    then show ?thesis by (simp add: refl)
  next
    case (Some c)
    then have "c \<in> set (map ?u extra)" by (blast dest: find_SomeD)
    then obtain c0 where "c0 \<in> set extra" "c = ?u c0" by auto
    with ext have "detected_symptoms c = Some D" by auto
    moreover from \<open>c0 \<in> set extra\<close> have "extra \<noteq> []" by auto
    ultimately show ?thesis using Some nil by simp
  qed
  have "R (?sy (find (\<lambda>c. session_id c = s) xs))
          (?sy (find (\<lambda>c. session_id c = s) (map ?u (xs @ extra))))"
    using upd
  proof (induction xs)
    case Nil
    then show ?case using tail by simp
  next
    case (Cons c xs)
    show ?case
    proof (cases "session_id c = s")
      case True
      then show ?thesis using Cons.prems by (auto simp: refl)
    next
      case False
      then show ?thesis using Cons by auto
    qed
  qed
  then show ?thesis
    using False by (simp add: evidence_def update_conversation_def)
qed

lemma maybeSingle_Some:
  "data (maybeSingle (select db t rows)) = Some x \<longleftrightarrow> t \<notin> set (failing db) \<and> rows = [x]"
  by (auto simp: maybeSingle_def select_def split: list.splits)

text \<open>The two ways in which a turn gets its conversation.\<close>

lemma load_or_create_cases:
  assumes "load_or_create db uid fresh req = Inr (conv, db0)"
  shows "Conversations \<notin> set (failing db) \<and>
         ((db0 = db \<and> filter (\<lambda>c. session_id c = req_sessionId req) (conversations db) = [conv])
          \<or> (db0 = db\<lparr>conversations := conversations db @ [conv]\<rparr>
              \<and> (\<forall>c\<in>set (conversations db). session_id c \<noteq> req_sessionId req)
              \<and> session_id conv = req_sessionId req \<and> detected_symptoms conv = Some []))"
proof (cases "data (maybeSingle (select db Conversations
                   (filter (\<lambda>c. session_id c = req_sessionId req) (conversations db))))")
  case None
  with assms show ?thesis
    by (auto simp: load_or_create_def Let_def list_ex_iff split: if_splits)
next
  case (Some c)
  with assms have "c = conv" "db0 = db" by (simp_all add: load_or_create_def)
  with Some show ?thesis by (simp add: maybeSingle_Some)
qed

text \<open>The database after a turn that went through.\<close>

lemma chat_orchestrator_db:
  assumes "load_or_create db uid fresh req = Inr (conv, db0)"
  shows "\<exists>H P ms. snd (chat_orchestrator db (Some uid) fresh req)
           = update_conversation db0 (req_sessionId req) H
               (merge_symptoms (case detected_symptoms conv of None \<Rightarrow> [] | Some ds \<Rightarrow> ds) ms) P"
  using assms by (simp add: chat_orchestrator_def Let_def) blast

lemma turn_evidence:
  fixes R :: "string list \<Rightarrow> string list \<Rightarrow> bool"
  assumes refl: "\<And>l. R l l" and step: "\<And>ds ms. R ds (merge_symptoms ds ms)"
  shows "R (evidence db sid) (evidence (snd (chat_orchestrator db user fresh req)) sid)"
proof (cases user)
  case None
  then show ?thesis by (simp add: chat_orchestrator_def refl)
next
  case (Some uid)
  show ?thesis
  proof (cases "load_or_create db uid fresh req")
    case (Inl e)
    then show ?thesis using Some by (simp add: chat_orchestrator_def refl)
  next
    case (Inr r)
    obtain conv db0 where r: "r = (conv, db0)" by (cases r)
    let ?ds0 = "case detected_symptoms conv of None \<Rightarrow> [] | Some ds \<Rightarrow> ds"
    from chat_orchestrator_db[OF Inr[unfolded r]] obtain H P ms where
      db': "snd (chat_orchestrator db (Some uid) fresh req)
              = update_conversation db0 (req_sessionId req) H (merge_symptoms ?ds0 ms) P"
      by blast
    from load_or_create_cases[OF Inr[unfolded r]] have nf: "Conversations \<notin> set (failing db)"
      and cases: "(db0 = db \<and> filter (\<lambda>c. session_id c = req_sessionId req) (conversations db) = [conv])
          \<or> (db0 = db\<lparr>conversations := conversations db @ [conv]\<rparr>
              \<and> (\<forall>c\<in>set (conversations db). session_id c \<noteq> req_sessionId req)
              \<and> session_id conv = req_sessionId req \<and> detected_symptoms conv = Some [])"
      by simp_all
    from cases show ?thesis
    proof
      assume found: "db0 = db \<and> filter (\<lambda>c. session_id c = req_sessionId req) (conversations db) = [conv]"
      have "\<forall>c\<in>set (conversations db). session_id c = req_sessionId req \<longrightarrow>
                R (case detected_symptoms c of None \<Rightarrow> [] | Some ds \<Rightarrow> ds) (merge_symptoms ?ds0 ms)"
      proof (intro ballI impI)
        fix c assume "c \<in> set (conversations db)" "session_id c = req_sessionId req"
        then have "c \<in> set (filter (\<lambda>c. session_id c = req_sessionId req) (conversations db))"
          by simp
        with found have "c = conv" by simp
        then show "R (case detected_symptoms c of None \<Rightarrow> [] | Some ds \<Rightarrow> ds)
                     (merge_symptoms ?ds0 ms)"
          by (simp add: step)
      qed
      from evidence_update[of R "conversations db" "req_sessionId req" "merge_symptoms ?ds0 ms" "[]"
          db sid H P, OF refl this]
      show ?thesis using nf found db' Some by simp
    next
      assume created: "db0 = db\<lparr>conversations := conversations db @ [conv]\<rparr>
              \<and> (\<forall>c\<in>set (conversations db). session_id c \<noteq> req_sessionId req)
              \<and> session_id conv = req_sessionId req \<and> detected_symptoms conv = Some []"
      then have none: "\<forall>c\<in>set (conversations db). session_id c = req_sessionId req \<longrightarrow>
                R (case detected_symptoms c of None \<Rightarrow> [] | Some ds \<Rightarrow> ds) (merge_symptoms ?ds0 ms)"
        by simp
      have ext: "\<forall>c\<in>set [conv]. session_id c = req_sessionId req"
        using created by simp
      have nil: "R [] (merge_symptoms ?ds0 ms)"
        using created step[of "[]" ms] by simp
      from evidence_update[of R "conversations db" "req_sessionId req" "merge_symptoms ?ds0 ms" "[conv]"
          db sid H P, OF refl none ext nil]
      show ?thesis using nf created db' Some by simp
    qed
  qed
qed

text \<open>
  C5. Whatever a turn does, the evidence stored for a session after the turn contains the
  evidence stored before it, and stays free of duplicates when it was; the loop that folds the
  matches in skips a code that is already present, adds exactly the codes of the matches and
  creates no duplicate.
\<close>

theorem evidence_only_grows:
  "set (evidence db sid) \<subseteq> set (evidence (snd (chat_orchestrator db user fresh req)) sid)
   \<and> (distinct (evidence db sid)
        \<longrightarrow> distinct (evidence (snd (chat_orchestrator db user fresh req)) sid))
   \<and> (symptom_code m \<in> set ds \<longrightarrow> push_symptom ds m = ds)
   \<and> set (merge_symptoms ds ms) = set ds \<union> symptom_code ` set ms
   \<and> (distinct ds \<longrightarrow> distinct (merge_symptoms ds ms))"
proof (intro conjI)
  show "set (evidence db sid) \<subseteq> set (evidence (snd (chat_orchestrator db user fresh req)) sid)"
    by (rule turn_evidence[of "\<lambda>a b. set a \<subseteq> set b"]) (simp_all add: set_merge_symptoms)
  show "distinct (evidence db sid)
        \<longrightarrow> distinct (evidence (snd (chat_orchestrator db user fresh req)) sid)"
    by (rule turn_evidence[of "\<lambda>a b. distinct a \<longrightarrow> distinct b"])
      (simp_all add: distinct_merge_symptoms)
  show "symptom_code m \<in> set ds \<longrightarrow> push_symptom ds m = ds"
    by (simp add: push_symptom_present)
  show "set (merge_symptoms ds ms) = set ds \<union> symptom_code ` set ms"
    by (rule set_merge_symptoms)
  show "distinct ds \<longrightarrow> distinct (merge_symptoms ds ms)"
    by (simp add: distinct_merge_symptoms)
qed

lemma find_map_unique:
  assumes "filter P xs = [c]" and "\<And>x. P (u x) = P x"
  shows "find P (map u xs) = Some (u c)"
  using assms(1)
proof (induction xs)
  case Nil
  then show ?case by simp
next
  case (Cons x xs)
  then show ?case by (cases "P x") (simp_all add: assms(2))
qed

text \<open>The evidence that a turn stores for its own session, when the session has a conversation.\<close>

lemma turn_evidence_found:
  assumes "filter (\<lambda>c. session_id c = req_sessionId req) (conversations db) = [conv]"
    and "Conversations \<notin> set (failing db)"
  shows "evidence (snd (chat_orchestrator db (Some uid) fresh req)) (req_sessionId req)
           = merge_symptoms (case detected_symptoms conv of None \<Rightarrow> [] | Some ds \<Rightarrow> ds)
               (detectSymptoms db (req_message req) (req_language req) (req_cropId req))"
proof -
  have l: "load_or_create db uid fresh req = Inr (conv, db)"
    using assms by (simp add: load_or_create_def maybeSingle_def select_def)
  let ?u = "\<lambda>H D P c. if session_id c = req_sessionId req
                then c\<lparr>conversation_history := Some H, detected_symptoms := Some D,
                        current_probabilities := Some P\<rparr>
                else c"
  have f: "find (\<lambda>c. session_id c = req_sessionId req) (map (?u H D P) (conversations db))
        = Some (?u H D P conv)" for H D P
    by (rule find_map_unique[OF assms(1)]) simp
  have "conv \<in> set (filter (\<lambda>c. session_id c = req_sessionId req) (conversations db))"
    by (simp only: assms(1) list.set_intros)
  then have c: "session_id conv = req_sessionId req" by simp
  show ?thesis
    using assms(2) c
    by (simp add: chat_orchestrator_def l Let_def evidence_def update_conversation_def f)
qed

lemma kb_detect_weak:
  "detectSymptoms kb (req_message weak_turn) (req_language weak_turn) (req_cropId weak_turn)
     = [rust_spots]"
  by (simp add: detectSymptoms_def symptom_filter_def select_def extractKeywords_def
      toLowerCase_def lower_unit_def weak_turn_def kb_defs string_defs Let_def)

lemma kb_weak_turn:
  "evidence (snd (chat_orchestrator kb (Some ''farmer'') ''c-new'' weak_turn)) ''sess-weak''
     = [''wilting'', ''rust_spots'']"
proof -
  have 1: "filter (\<lambda>c. session_id c = req_sessionId weak_turn) (conversations kb) = [conv_weak]"
    by (simp add: weak_turn_def kb_def conv_strong_def conv_weak_def conv_fresh_def)
  have 2: "Conversations \<notin> set (failing kb)" by (simp add: kb_def)
  have 3: "req_sessionId weak_turn = ''sess-weak''" by (simp add: weak_turn_def)
  show ?thesis
    using turn_evidence_found [OF 1 2, of "''farmer''" "''c-new''"]
    unfolding kb_detect_weak 3
    by (simp add: conv_weak_def merge_symptoms_def push_symptom_def rust_spots_def)
qed

text \<open>
  The weak conversation reports rust spots in a further turn: the stored evidence grows from
  wilting to wilting and rust spots.
\<close>

theorem evidence_only_grows_witness:
  "evidence kb ''sess-weak'' = [''wilting'']
   \<and> evidence (snd (chat_orchestrator kb (Some ''farmer'') ''c-new'' weak_turn)) ''sess-weak''
       = [''wilting'', ''rust_spots'']
   \<and> set (evidence kb ''sess-weak'')
       \<subseteq> set (evidence (snd (chat_orchestrator kb (Some ''farmer'') ''c-new'' weak_turn)) ''sess-weak'')
   \<and> push_symptom [''wilting''] wilting = [''wilting'']
   \<and> merge_symptoms [''wilting''] [rust_spots, wilting] = [''wilting'', ''rust_spots'']"
proof -
  have e: "evidence kb ''sess-weak'' = [''wilting'']"
    by (simp add: evidence_def kb_def conv_strong_def conv_weak_def conv_fresh_def)
  have c: "symptom_code wilting \<in> set [''wilting'']"
    by (simp add: wilting_def)
  have m: "merge_symptoms [''wilting''] [rust_spots, wilting] = [''wilting'', ''rust_spots'']"
    by (simp add: merge_symptoms_def push_symptom_def wilting_def rust_spots_def)
  from evidence_only_grows [of kb "''sess-weak''" "Some ''farmer''" "''c-new''" weak_turn
      wilting "[''wilting'']" "[rust_spots, wilting]"] c
  have "set (evidence kb ''sess-weak'')
       \<subseteq> set (evidence (snd (chat_orchestrator kb (Some ''farmer'') ''c-new'' weak_turn)) ''sess-weak'')"
    and "push_symptom [''wilting''] wilting = [''wilting'']"
    by blast+
  with e kb_weak_turn m show ?thesis by blast
qed

text \<open>A turn that gets its conversation answers 200 with the merged evidence and its scores.\<close>

lemma chat_orchestrator_ok:
  assumes "load_or_create db uid fresh req = Inr (conv, db0)"
  shows "\<exists>r db'. chat_orchestrator db (Some uid) fresh req = (Http_ok r, db')
           \<and> r_detectedSymptoms r
               = merge_symptoms (case detected_symptoms conv of None \<Rightarrow> [] | Some ds \<Rightarrow> ds)
                   (detectSymptoms db0 (req_message req) (req_language req) (req_cropId req))
           \<and> r_probabilities r = calculateDiseaseProbabilities db0 (r_detectedSymptoms r)"
  using assms by (simp add: chat_orchestrator_def Let_def)

lemma load_or_create_failing:
  assumes "load_or_create db uid fresh req = Inr (conv, db0)"
  shows "failing db0 = failing db"
  using load_or_create_cases[OF assms] by auto

text \<open>
  C9, as the code has it. When the symptoms table or the mapping table cannot be read,
  \<^verbatim>\<open>calculateDiseaseProbabilities\<close> returns the empty object, and a turn that gets its
  conversation answers 200 with empty probabilities: the failure is not handed on.
\<close>

theorem knowledge_base_failure_absorbed:
  assumes "Symptoms \<in> set (failing db) \<or> Symptom_disease_mapping \<in> set (failing db)"
  shows "calculateDiseaseProbabilities db detectedSymptoms = []
       \<and> (\<forall>conv db0. load_or_create db uid fresh req = Inr (conv, db0) \<longrightarrow>
            (\<exists>r db'. chat_orchestrator db (Some uid) fresh req = (Http_ok r, db')
                \<and> r_probabilities r = []))"
proof (intro conjI allI impI)
  show "calculateDiseaseProbabilities db detectedSymptoms = []"
    using assms by (auto simp: calculate_closed)
next
  fix conv db0
  assume l: "load_or_create db uid fresh req = Inr (conv, db0)"
  from chat_orchestrator_ok[OF l] obtain r db' where
    r: "chat_orchestrator db (Some uid) fresh req = (Http_ok r, db')"
       "r_probabilities r = calculateDiseaseProbabilities db0 (r_detectedSymptoms r)"
    by blast
  have "Symptoms \<in> set (failing db0) \<or> Symptom_disease_mapping \<in> set (failing db0)"
    using assms load_or_create_failing[OF l] by simp
  then have "calculateDiseaseProbabilities db0 (r_detectedSymptoms r) = []"
    by (auto simp: calculate_closed)
  with r show "\<exists>r db'. chat_orchestrator db (Some uid) fresh req = (Http_ok r, db')
                \<and> r_probabilities r = []"
    by auto
qed

lemma kb_outage_load:
  "load_or_create (kb\<lparr>failing := [Symptom_disease_mapping]\<rparr>) ''farmer'' ''c-new'' weak_turn
     = Inr (conv_weak, kb\<lparr>failing := [Symptom_disease_mapping]\<rparr>)"
  by (simp add: load_or_create_def maybeSingle_def select_def weak_turn_def kb_def
      conv_strong_def conv_weak_def conv_fresh_def)

text \<open>
  The weak conversation takes a turn while the mapping table cannot be read: the stored
  evidence (wilting) has a mapping row, yet the turn answers 200 with no probabilities.
\<close>

theorem knowledge_base_failure_absorbed_witness:
  "Symptom_disease_mapping \<in> set (failing (kb\<lparr>failing := [Symptom_disease_mapping]\<rparr>))
   \<and> calculateDiseaseProbabilities (kb\<lparr>failing := [Symptom_disease_mapping]\<rparr>) [''wilting''] = []
   \<and> calculateDiseaseProbabilities kb [''wilting''] = [(''d-blight'', 5404319552844595 / 2 ^ 55)]
   \<and> (\<exists>r db'. chat_orchestrator (kb\<lparr>failing := [Symptom_disease_mapping]\<rparr>) (Some ''farmer'')
                  ''c-new'' weak_turn = (Http_ok r, db')
         \<and> r_probabilities r = [])"
proof -
  have f: "Symptoms \<in> set (failing (kb\<lparr>failing := [Symptom_disease_mapping]\<rparr>))
           \<or> Symptom_disease_mapping \<in> set (failing (kb\<lparr>failing := [Symptom_disease_mapping]\<rparr>))"
    by simp
  from knowledge_base_failure_absorbed [OF f, of "[''wilting'']" "''farmer''" "''c-new''" weak_turn]
    kb_outage_load kb_wilting
  show ?thesis by simp
qed

text \<open>
  A failed read is not handed on: the mapping lookup of this turn fails, the evidence of the
  turn contains wilting, and the answer is a success with the empty object.
\<close>

theorem failed_read_not_propagated_counterexample:
  "error (select (kb\<lparr>failing := [Symptom_disease_mapping]\<rparr>) Symptom_disease_mapping
            (symptom_disease_mapping kb)) = Some ''unavailable''
   \<and> calculateDiseaseProbabilities (kb\<lparr>failing := [Symptom_disease_mapping]\<rparr>) [''wilting''] = []
   \<and> (\<exists>r db'. chat_orchestrator (kb\<lparr>failing := [Symptom_disease_mapping]\<rparr>) (Some ''farmer'')
                  ''c-new'' weak_turn = (Http_ok r, db')
         \<and> ''wilting'' \<in> set (r_detectedSymptoms r) \<and> r_probabilities r = [])"
proof -
  let ?db = "kb\<lparr>failing := [Symptom_disease_mapping]\<rparr>"
  from chat_orchestrator_ok[OF kb_outage_load] obtain r db' where
    r: "chat_orchestrator ?db (Some ''farmer'') ''c-new'' weak_turn = (Http_ok r, db')"
       "r_detectedSymptoms r
          = merge_symptoms (case detected_symptoms conv_weak of None \<Rightarrow> [] | Some ds \<Rightarrow> ds)
              (detectSymptoms ?db (req_message weak_turn) (req_language weak_turn)
                 (req_cropId weak_turn))"
       "r_probabilities r = calculateDiseaseProbabilities ?db (r_detectedSymptoms r)"
    by blast
  have c: "calculateDiseaseProbabilities ?db ds = []" for ds
    by (simp add: calculate_closed)
  have "''wilting'' \<in> set (r_detectedSymptoms r)"
    unfolding r(2) set_merge_symptoms by (simp add: conv_weak_def)
  with r(1) r(3) c show ?thesis
    by (auto simp: select_def)
qed

section \<open>Properties of the question selection\<close>

lemma includes_js_sublist: "includes_js s t \<longleftrightarrow> sublist t s"
  by (induction s) (simp_all add: sublist_Cons_right)

text \<open>The test of the loop is the condition \<open>qualifies\<close>.\<close>

lemma loop_test_qualifies:
  "(list_ex (\<lambda>ts. ts \<in> set detectedSymptoms) (case trigger_symptoms q of None \<Rightarrow> [] | Some ts \<Rightarrow> ts)
      \<and> \<not> list_ex (\<lambda>asked. includes_js asked (if language = ''hi'' then question_hi q else question_en q))
            (map content (filter (\<lambda>m. role m = Assistant) history)))
   \<longleftrightarrow> qualifies detectedSymptoms history language q"
  by (auto simp: qualifies_def triggers_def question_text_def list_ex_iff includes_js_sublist
      split: option.splits)

lemma scan_questions_None:
  "scan_questions detectedSymptoms (map content (filter (\<lambda>m. role m = Assistant) history)) language qs = None
   \<longleftrightarrow> (\<forall>q\<in>set qs. \<not> qualifies detectedSymptoms history language q)"
proof (induction qs)
  case Nil
  show ?case by simp
next
  case (Cons q qs)
  show ?case
    using loop_test_qualifies[of detectedSymptoms q language history] Cons.IH
    by (simp add: Let_def)
qed

lemma scan_questions_Some:
  assumes "scan_questions detectedSymptoms (map content (filter (\<lambda>m. role m = Assistant) history))
             language qs = Some nq"
  shows "\<exists>i<length qs. qualifies detectedSymptoms history language (qs ! i)
           \<and> (\<forall>j<i. \<not> qualifies detectedSymptoms history language (qs ! j))
           \<and> nq = \<lparr>nq_question = question_text language (qs ! i), nq_code = question_code (qs ! i),
                    nq_answerType = answer_type (qs ! i), nq_options = options (qs ! i)\<rparr>"
  using assms
proof (induction qs)
  case Nil
  then show ?case by simp
next
  case (Cons q qs)
  show ?case
  proof (cases "qualifies detectedSymptoms history language q")
    case True
    with Cons.prems loop_test_qualifies[of detectedSymptoms q language history]
    have "nq = \<lparr>nq_question = question_text language q, nq_code = question_code q,
                nq_answerType = answer_type q, nq_options = options q\<rparr>"
      by (simp add: Let_def question_text_def)
    with True show ?thesis by (intro exI[of _ 0]) simp
  next
    case False
    with Cons.prems loop_test_qualifies[of detectedSymptoms q language history]
    have "scan_questions detectedSymptoms (map content (filter (\<lambda>m. role m = Assistant) history))
             language qs = Some nq"
      by (simp add: Let_def)
    from Cons.IH[OF this] obtain i where i: "i < length qs"
      "qualifies detectedSymptoms history language (qs ! i)"
      "\<forall>j<i. \<not> qualifies detectedSymptoms history language (qs ! j)"
      "nq = \<lparr>nq_question = question_text language (qs ! i), nq_code = question_code (qs ! i),
              nq_answerType = answer_type (qs ! i), nq_options = options (qs ! i)\<rparr>"
      by blast
    have "\<forall>j<Suc i. \<not> qualifies detectedSymptoms history language ((q # qs) ! j)"
      using False i(3) by (auto simp: less_Suc_eq_0_disj)
    with i show ?thesis by (intro exI[of _ "Suc i"]) simp
  qed
qed

lemma getNextQuestion_read:
  assumes "Diagnostic_questions \<notin> set (failing db)"
  shows "getNextQuestion db detectedSymptoms history language
           = scan_questions detectedSymptoms (map content (filter (\<lambda>m. role m = Assistant) history))
               language (order_priority_desc (diagnostic_questions db))"
  using assms by (simp add: getNextQuestion_def select_def Let_def)

lemma getNextQuestion_unread:
  assumes "Diagnostic_questions \<in> set (failing db)"
  shows "getNextQuestion db detectedSymptoms history language = None"
  using assms by (simp add: getNextQuestion_def select_def Let_def)

lemma order_priority_desc_sorted:
  "sorted_wrt (\<lambda>a b. priority b \<le> priority a) (order_priority_desc qs)"
proof -
  have "sorted (map (\<lambda>q. - priority q) (order_priority_desc qs))"
    by (simp add: order_priority_desc_def)
  then show ?thesis by (simp add: sorted_map)
qed

text \<open>
  C8. When the question table is read, the questions are scanned by falling priority and
  \<^verbatim>\<open>getNextQuestion\<close> returns the first one that qualifies, and none exactly when no question
  qualifies. In every case the text of the question returned occurs in no earlier message
  of the assistant.
\<close>

theorem next_question_first_qualifying:
  "(Diagnostic_questions \<notin> set (failing db) \<longrightarrow>
      (let qs = order_priority_desc (diagnostic_questions db) in
         sorted_wrt (\<lambda>a b. priority b \<le> priority a) qs \<and> mset qs = mset (diagnostic_questions db)
         \<and> (case getNextQuestion db detectedSymptoms history language of
              None \<Rightarrow> \<forall>q\<in>set qs. \<not> qualifies detectedSymptoms history language q
            | Some nq \<Rightarrow>
                \<exists>i<length qs. qualifies detectedSymptoms history language (qs ! i)
                  \<and> (\<forall>j<i. \<not> qualifies detectedSymptoms history language (qs ! j))
                  \<and> nq = \<lparr>nq_question = question_text language (qs ! i),
                           nq_code = question_code (qs ! i), nq_answerType = answer_type (qs ! i),
                           nq_options = options (qs ! i)\<rparr>)))
   \<and> (\<forall>nq m. getNextQuestion db detectedSymptoms history language = Some nq
          \<and> m \<in> set history \<and> role m = Assistant
        \<longrightarrow> \<not> sublist (nq_question nq) (content m))"
proof (intro conjI impI allI)
  assume read: "Diagnostic_questions \<notin> set (failing db)"
  let ?qs = "order_priority_desc (diagnostic_questions db)"
  have 1: "sorted_wrt (\<lambda>a b. priority b \<le> priority a) ?qs"
    by (rule order_priority_desc_sorted)
  have 2: "mset ?qs = mset (diagnostic_questions db)"
    by (simp add: order_priority_desc_def)
  have 3: "(case getNextQuestion db detectedSymptoms history language of
              None \<Rightarrow> \<forall>q\<in>set ?qs. \<not> qualifies detectedSymptoms history language q
            | Some nq \<Rightarrow>
                \<exists>i<length ?qs. qualifies detectedSymptoms history language (?qs ! i)
                  \<and> (\<forall>j<i. \<not> qualifies detectedSymptoms history language (?qs ! j))
                  \<and> nq = \<lparr>nq_question = question_text language (?qs ! i),
                           nq_code = question_code (?qs ! i), nq_answerType = answer_type (?qs ! i),
                           nq_options = options (?qs ! i)\<rparr>)"
  proof (cases "getNextQuestion db detectedSymptoms history language")
    case None
    then show ?thesis
      using scan_questions_None[of detectedSymptoms history language ?qs]
      by (simp add: getNextQuestion_read[OF read])
  next
    case (Some nq)
    then show ?thesis
      using scan_questions_Some[of detectedSymptoms history language ?qs nq]
      by (simp add: getNextQuestion_read[OF read])
  qed
  from 1 2 3 show "let qs = ?qs in
         sorted_wrt (\<lambda>a b. priority b \<le> priority a) qs \<and> mset qs = mset (diagnostic_questions db)
         \<and> (case getNextQuestion db detectedSymptoms history language of
              None \<Rightarrow> \<forall>q\<in>set qs. \<not> qualifies detectedSymptoms history language q
            | Some nq \<Rightarrow>
                \<exists>i<length qs. qualifies detectedSymptoms history language (qs ! i)
                  \<and> (\<forall>j<i. \<not> qualifies detectedSymptoms history language (qs ! j))
                  \<and> nq = \<lparr>nq_question = question_text language (qs ! i),
                           nq_code = question_code (qs ! i), nq_answerType = answer_type (qs ! i),
                           nq_options = options (qs ! i)\<rparr>)"
    by (simp only: Let_def)
next
  fix nq m
  assume a: "getNextQuestion db detectedSymptoms history language = Some nq
          \<and> m \<in> set history \<and> role m = Assistant"
  then have read: "Diagnostic_questions \<notin> set (failing db)"
    using getNextQuestion_unread[of db detectedSymptoms history language] by auto
  let ?qs = "order_priority_desc (diagnostic_questions db)"
  from a scan_questions_Some[of detectedSymptoms history language ?qs nq]
  obtain i where "qualifies detectedSymptoms history language (?qs ! i)"
    "nq_question nq = question_text language (?qs ! i)"
    by (auto simp: getNextQuestion_read[OF read])
  with a show "\<not> sublist (nq_question nq) (content m)"
    by (auto simp: qualifies_def)
qed

lemma kb_question_order:
  "map question_code (order_priority_desc (diagnostic_questions kb))
     = [''q_colour'', ''q_soil'', ''q_spread'']"
  by (simp add: order_priority_desc_def kb_def kb_questions_def)

lemma kb_first_question:
  "getNextQuestion kb [''rust_spots''] [] ''en''
     = Some \<lparr>nq_question = js ''Which colour are the spots?'', nq_code = ''q_colour'',
              nq_answerType = ''text'', nq_options = ''[]''\<rparr>"
  by (simp add: getNextQuestion_def select_def order_priority_desc_def kb_def kb_questions_def
      Let_def)

lemma kb_second_question:
  "getNextQuestion kb [''rust_spots''] asked_colour ''en''
     = Some \<lparr>nq_question = js ''Is it spreading?'', nq_code = ''q_spread'',
              nq_answerType = ''yes_no'', nq_options = ''[]''\<rparr>"
  by (simp add: getNextQuestion_def select_def order_priority_desc_def kb_def kb_questions_def
      asked_colour_def js_def Let_def)

text \<open>
  With rust spots in the evidence the colour question (priority 9) comes first; once it is
  in the history the spreading question (priority 5) is returned, whose text the assistant has
  not sent. The soil question (priority 7) has no trigger symptom and never qualifies.
\<close>

theorem next_question_first_qualifying_witness:
  "map question_code (order_priority_desc (diagnostic_questions kb))
     = [''q_colour'', ''q_soil'', ''q_spread'']
   \<and> getNextQuestion kb [''rust_spots''] [] ''en''
       = Some \<lparr>nq_question = js ''Which colour are the spots?'', nq_code = ''q_colour'',
                nq_answerType = ''text'', nq_options = ''[]''\<rparr>
   \<and> getNextQuestion kb [''rust_spots''] asked_colour ''en''
       = Some \<lparr>nq_question = js ''Is it spreading?'', nq_code = ''q_spread'',
                nq_answerType = ''yes_no'', nq_options = ''[]''\<rparr>
   \<and> \<not> sublist (js ''Is it spreading?'') (content (asked_colour ! 1))"
proof -
  have m: "asked_colour ! 1 \<in> set asked_colour" "role (asked_colour ! 1) = Assistant"
    by (simp_all add: asked_colour_def)
  from next_question_first_qualifying [of kb "[''rust_spots'']" asked_colour "''en''"]
    kb_second_question m
  have "\<not> sublist (nq_question \<lparr>nq_question = js ''Is it spreading?'', nq_code = ''q_spread'',
              nq_answerType = ''yes_no'', nq_options = ''[]''\<rparr>) (content (asked_colour ! 1))"
    by blast
  then show ?thesis
    using kb_question_order kb_first_question kb_second_question by simp
qed

section \<open>Properties of the symptom detection\<close>

text \<open>
  C10. For a crop that has no disease in the disease table, or whose diseases have no row
  in the symptom-disease mapping, the query of \<^verbatim>\<open>detectSymptoms\<close> is not narrowed: the
  candidates are the whole symptom table and the result is the one obtained without a crop.
\<close>

theorem crop_without_mapping_falls_back:
  assumes "(\<forall>d\<in>set (diseases db). d_crop_id d \<noteq> Some c)
           \<or> (\<forall>m\<in>set (symptom_disease_mapping db). \<forall>d\<in>set (diseases db).
                 d_crop_id d = Some c \<longrightarrow> disease_id m \<noteq> d_id d)"
  shows "symptom_filter db (Some c) = None
       \<and> detectSymptoms db message language (Some c) = detectSymptoms db message language None"
proof -
  have "filter (\<lambda>d. d_crop_id d = Some c) (diseases db) = []
        \<or> filter (\<lambda>m. disease_id m \<in> set (map d_id (filter (\<lambda>d. d_crop_id d = Some c) (diseases db))))
             (symptom_disease_mapping db) = []"
    using assms by (auto simp: filter_empty_conv)
  then have f: "symptom_filter db (Some c) = None"
    by (auto simp: symptom_filter_def select_def Let_def)
  have "symptom_filter db None = None"
    by (simp add: symptom_filter_def)
  with f show ?thesis
    by (simp add: detectSymptoms_def)
qed

lemma kb_detect_no_crop:
  "detectSymptoms kb (js ''Wilting'') ''en'' None = [wilting]"
  by (simp add: detectSymptoms_def symptom_filter_def select_def extractKeywords_def
      toLowerCase_def lower_unit_def kb_defs string_defs Let_def)

lemma kb_detect_wheat:
  "detectSymptoms kb (js ''Wilting'') ''en'' (Some ''crop-wheat'') = []"
  by (simp add: detectSymptoms_def symptom_filter_def select_def extractKeywords_def new_Set_def
      toLowerCase_def lower_unit_def kb_defs string_defs Let_def)

text \<open>
  Wilting is no symptom of a wheat disease, so it is not detected for wheat; for maize,
  which has no disease in the table, it is detected as it is without a crop.
\<close>

theorem crop_without_mapping_falls_back_witness:
  "list_all (\<lambda>d. d_crop_id d \<noteq> Some ''crop-maize'') (diseases kb)
   \<and> symptom_filter kb (Some ''crop-maize'') = None
   \<and> detectSymptoms kb (js ''Wilting'') ''en'' (Some ''crop-maize'') = [wilting]
   \<and> detectSymptoms kb (js ''Wilting'') ''en'' None = [wilting]
   \<and> detectSymptoms kb (js ''Wilting'') ''en'' (Some ''crop-wheat'') = []"
proof -
  have h: "\<forall>d\<in>set (diseases kb). d_crop_id d \<noteq> Some ''crop-maize''"
    by (simp add: kb_def wheat_rust_def leaf_blight_def)
  then have "(\<forall>d\<in>set (diseases kb). d_crop_id d \<noteq> Some ''crop-maize'')
           \<or> (\<forall>m\<in>set (symptom_disease_mapping kb). \<forall>d\<in>set (diseases kb).
                 d_crop_id d = Some ''crop-maize'' \<longrightarrow> disease_id m \<noteq> d_id d)"
    by (rule disjI1)
  from crop_without_mapping_falls_back [OF this, of "js ''Wilting''" "''en''"]
    h kb_detect_no_crop kb_detect_wheat
  show ?thesis
    unfolding list_all_iff by simp
qed

section \<open>Properties of the action steps\<close>













end
